theory Spec2Isabelle
  imports Main "HOL-Library.Word"
begin

unbundle bit_operations_syntax

section \<open>Machine integers, byte strings and outcomes\<close>

type_synonym u8 = "8 word"
type_synonym u16 = "16 word"
type_synonym u32 = "32 word"
type_synonym u64 = "64 word"
type_synonym bytes = "u8 list"

text \<open>The negative return codes of the decoders and of \<open>quic_frame_process\<close>.\<close>

datatype errno = EINVAL | ENOMEM | EPROTONOSUPPORT

text \<open>
  A run of a C function either returns, or it leaves the bounds the source itself declared
  (a read at an index that is not below \<open>skb->len\<close>, a write past a scratch array or
  past the size asked of \<open>alloc_skb\<close>, a pointer of the wrong type behind \<open>void *\<close>).
  C gives such a run no meaning; the model gives it the outcome \<open>Undefined\<close>.
\<close>

datatype 'a run = Undefined | Returns 'a

text \<open>Reading \<open>n\<close> bytes at a pointer with \<open>length bs\<close> bytes behind it.\<close>

definition mem_read :: "bytes \<Rightarrow> nat \<Rightarrow> bytes option" where
  "mem_read bs n = (if n \<le> length bs then Some (take n bs) else None)"

text \<open>\<open>*p\<close>: one byte at a pointer with \<open>length bs\<close> bytes behind it.\<close>

definition deref :: "bytes \<Rightarrow> u8 option" where
  "deref bs = (case bs of [] \<Rightarrow> None | b # _ \<Rightarrow> Some b)"

text \<open>A scratch array \<open>u8 frame[cap]\<close> filled from its start.\<close>

definition scratch :: "nat \<Rightarrow> bytes \<Rightarrow> bytes run" where
  "scratch cap bs = (if length bs \<le> cap then Returns bs else Undefined)"

section \<open>Variable-length integers (number.h)\<close>

text \<open>
  Modelled from the spec: \<open>quic_var_len\<close>, \<open>quic_put_var\<close>, \<open>quic_get_var\<close> and
  \<open>quic_put_data\<close> live in number.h, which is not among the sources. The spec, section 4.1:
  a value is encoded in 1, 2, 4 or 8 bytes, the smallest class that holds it, big-endian, the
  two most significant bits of the first byte selecting the class; the decoder looks at the
  first byte, derives the class from its top two bits, requires that many bytes to remain,
  reads big-endian, masks the class bits out of the first byte, advances the cursor and returns
  the value; it returns nothing on truncated input. The spec defines the encoding for values
  below \<open>2 ^ 62\<close> only; above, the 8-byte form here sets the two class bits over
  the value's own top bits.
\<close>

definition quic_var_len :: "u64 \<Rightarrow> nat" where
  "quic_var_len n =
     (if n < 64 then 1 else if n < 16384 then 2 else if n < 1073741824 then 4 else 8)"

definition quic_put_var :: "u64 \<Rightarrow> bytes" where
  "quic_put_var n =
     (if n < 64 then [ucast n]
      else if n < 16384 then [ucast (drop_bit 8 n) OR 0x40, ucast n]
      else if n < 1073741824 then
        [ucast (drop_bit 24 n) OR 0x80, ucast (drop_bit 16 n), ucast (drop_bit 8 n), ucast n]
      else
        [ucast (drop_bit 56 n) OR 0xC0, ucast (drop_bit 48 n), ucast (drop_bit 40 n),
         ucast (drop_bit 32 n), ucast (drop_bit 24 n), ucast (drop_bit 16 n),
         ucast (drop_bit 8 n), ucast n])"

text \<open>The \<open>k\<close> low bytes of a value, most significant first, and the value of a
  big-endian byte string.\<close>

primrec be_bytes :: "nat \<Rightarrow> u64 \<Rightarrow> bytes" where
  "be_bytes 0 v = []"
| "be_bytes (Suc k) v = ucast (drop_bit (8 * k) v) # be_bytes k v"

definition be_val :: "bytes \<Rightarrow> u64" where
  "be_val bs = foldl (\<lambda>a b. push_bit 8 a OR ucast b) 0 bs"

text \<open>
  \<open>quic_get_var (&p, &len, &v)\<close>: the cursor and the remaining length are the byte list that
  is left; \<open>None\<close> is the return value 0.
\<close>

definition quic_get_var :: "bytes \<Rightarrow> (u64 \<times> bytes) option" where
  "quic_get_var bs =
     (case bs of
        [] \<Rightarrow> None
      | b # rest \<Rightarrow>
          let k = (2::nat) ^ unat (drop_bit 6 b) in
          if length bs < k then None
          else Some (be_val ((b AND 0x3F) # take (k - 1) rest), drop (k - 1) rest))"

section \<open>The collaborators' state (socket.h)\<close>

text \<open>
  The structures below are declared in socket.h and the headers it includes, which are not
  among the sources; their fields are the ones frame.c reads and writes. Byte counts, offsets,
  stream ids and sequence numbers are 64-bit, as the locals that receive them in frame.c.
\<close>

record quic_token =
  tk_data :: bytes
  tk_len :: u32

datatype send_state =
  QUIC_STREAM_SEND_STATE_READY | QUIC_STREAM_SEND_STATE_SEND | QUIC_STREAM_SEND_STATE_SENT
  | QUIC_STREAM_SEND_STATE_RECVD | QUIC_STREAM_SEND_STATE_RESET_SENT
  | QUIC_STREAM_SEND_STATE_RESET_RECVD

datatype recv_state =
  QUIC_STREAM_RECV_STATE_RECV | QUIC_STREAM_RECV_STATE_SIZE_KNOWN
  | QUIC_STREAM_RECV_STATE_RECVD | QUIC_STREAM_RECV_STATE_READ
  | QUIC_STREAM_RECV_STATE_RESET_RECVD | QUIC_STREAM_RECV_STATE_RESET_READ

text \<open>A stream, without its id: the stream table maps the id to it.\<close>

record quic_stream =
  send_offset :: u64
  send_max_bytes :: u64
  send_data_blocked :: bool
  send_st :: send_state
  recv_max_bytes :: u64
  recv_bytes :: u64
  recv_window :: u64
  recv_st :: recv_state

record quic_stream_table =
  strm :: "u64 \<rightharpoonup> quic_stream"
  send_stream_active :: u64
  send_max_streams_uni :: u64
  send_max_streams_bidi :: u64
  send_streams_uni :: u64
  send_streams_bidi :: u64
  recv_max_streams_uni :: u64
  recv_max_streams_bidi :: u64

text \<open>The control block of an outbound frame buffer, \<open>QUIC_SND_CB (skb)\<close>, and the buffer.\<close>

record sk_buff =
  skb_data :: bytes
  cb_frame_type :: u8
  cb_stream :: "u64 option"
  cb_stream_offset :: u64
  cb_data_bytes :: u32
  cb_err_code :: u64

text \<open>A clone handed to the reassembly queue, with \<open>QUIC_RCV_CB (nskb)\<close>.\<close>

record rcv_skb =
  rcv_data :: bytes
  rcb_stream :: u64
  rcb_stream_fin :: u8
  rcb_stream_offset :: u64

record quic_outqueue =
  close_errcode :: u64
  close_frame :: u64
  close_phrase :: "bytes option"
  outq_max_bytes :: u64
  outq_data_blocked :: bool
  ack_delay_exponent :: nat
  ctrl_queue :: "(sk_buff \<times> bool) list"
  retransmit_checks :: "(u64 \<times> u64 \<times> u64 \<times> u64) list"

record quic_inqueue =
  inq_max_bytes :: u64
  inq_bytes :: u64
  inq_window :: u64
  reasm_queue :: "rcv_skb list"
  reasm_err :: "errno option"

record quic_connection_id =
  cid_number :: u64
  cid_bytes :: bytes

record quic_connection_id_set =
  cid_entries :: "quic_connection_id list"
  max_count :: u32

record quic_gap_ack_block =
  gab_start :: u16
  gab_end :: u16

record quic_pnmap =
  max_pn_seen :: u32
  min_pn_seen :: u32
  max_pn_ts :: u32
  base_pn :: u32
  pn_gabs :: "quic_gap_ack_block list"

record quic_path_addr =
  entropy :: bytes
  pending :: bool
  active :: bool
  addr :: "bool \<Rightarrow> bytes"

datatype quic_state = QUIC_STATE_USER_CLOSED | QUIC_STATE_OTHER nat

text \<open>
  The socket. Besides the protocol state it holds what the environment decides: the outcome
  of each allocation in the order they are asked (\<open>allocs\<close>, an empty list meaning that every
  further allocation succeeds), the bytes \<open>get_random_bytes\<close> will deliver (\<open>rng\<close> from
  position \<open>rng_pos\<close> on), the contents of stack memory that was never written
  (\<open>uninit\<close>), the clock (\<open>jiffies_usecs\<close>), and the pointer that the stream table's
  \<open>recv_get\<close> and \<open>send_get\<close> return when they fail (\<open>get_err\<close>: \<open>None\<close> for \<open>NULL\<close>,
  \<open>Some e\<close> for \<open>ERR_PTR (-e)\<close>).
\<close>

record sock =
  source :: quic_connection_id_set
  dest :: quic_connection_id_set
  outq :: quic_outqueue
  inq :: quic_inqueue
  streams :: quic_stream_table
  pnmap :: quic_pnmap
  token :: quic_token
  ticket :: quic_token
  src :: quic_path_addr
  dst :: quic_path_addr
  udp_sk :: "bool \<Rightarrow> nat option"
  udp_sock_puts :: "nat option list"
  sk_local_addr :: bytes
  sk_peer_addr :: bytes
  addr_len :: nat
  is_serv :: bool
  packet_max_payload :: u32
  sk_err :: int
  sk_state :: quic_state
  sk_state_changes :: nat
  sk_write_spaces :: nat
  allocs :: "bool list"
  rng :: "nat \<Rightarrow> u8"
  rng_pos :: nat
  uninit :: "nat \<Rightarrow> u8"
  jiffies_usecs :: u32
  get_err :: "errno option"


section \<open>Collaborator operations\<close>

text \<open>
  Modelled from the spec: the operations below are defined in files that are not among the
  sources (the allocator, the random generator, the stream table, the connection-id sets, the
  queues and the socket callbacks, section 6 of the spec). Each does what the spec says the
  collaborator does and nothing more.
\<close>

text \<open>\<open>alloc_skb\<close>, \<open>kmemdup\<close>, \<open>skb_clone\<close> and the allocation inside an append: the next
  outcome of the environment's schedule.\<close>

definition alloc :: "sock \<Rightarrow> bool \<times> sock" where
  "alloc s = (case allocs s of [] \<Rightarrow> (True, s) | b # bs \<Rightarrow> (b, s\<lparr>allocs := bs\<rparr>))"

text \<open>\<open>alloc_skb\<close> followed by filling the buffer; the control block starts zeroed.\<close>

definition new_skb :: "bytes \<Rightarrow> sk_buff" where
  "new_skb bs = \<lparr>skb_data = bs, cb_frame_type = 0, cb_stream = None, cb_stream_offset = 0,
     cb_data_bytes = 0, cb_err_code = 0\<rparr>"

definition get_random_bytes :: "sock \<Rightarrow> nat \<Rightarrow> bytes \<times> sock" where
  "get_random_bytes s n =
     (map (rng s) [rng_pos s ..< rng_pos s + n], s\<lparr>rng_pos := rng_pos s + n\<rparr>)"

definition quic_stream_find :: "quic_stream_table \<Rightarrow> u64 \<Rightarrow> quic_stream option" where
  "quic_stream_find t sid = strm t sid"

definition stream_init :: quic_stream where
  "stream_init = \<lparr>send_offset = 0, send_max_bytes = 0, send_data_blocked = False,
     send_st = QUIC_STREAM_SEND_STATE_READY, recv_max_bytes = 0, recv_bytes = 0,
     recv_window = 0, recv_st = QUIC_STREAM_RECV_STATE_RECV\<rparr>"

text \<open>
  \<open>Streams.recv_get\<close> and \<open>Streams.send_get\<close> look the stream up or create it, and
  creation allocates. They return a \<open>struct quic_stream *\<close>. What that pointer is after a
  failure the sources do not say, and their callers disagree (\<open>quic_frame_stream_process\<close>
  tests \<open>!stream\<close>, the other two \<open>IS_ERR (stream)\<close>), so it is the socket's
  \<open>get_err\<close>: \<open>NULL\<close>, or \<open>ERR_PTR\<close> of an error.
\<close>

datatype stream_ptr = Null_ptr | Err_ptr errno | Stream_ptr quic_stream

definition stream_get :: "sock \<Rightarrow> u64 \<Rightarrow> stream_ptr \<times> sock" where
  "stream_get s sid =
     (case strm (streams s) sid of
        Some st \<Rightarrow> (Stream_ptr st, s)
      | None \<Rightarrow>
          (case alloc s of
             (False, s1) \<Rightarrow> (case get_err s1 of None \<Rightarrow> Null_ptr | Some e \<Rightarrow> Err_ptr e, s1)
           | (True, s1) \<Rightarrow>
               (Stream_ptr stream_init,
                s1\<lparr>streams := (streams s1)\<lparr>strm := (strm (streams s1))(sid \<mapsto> stream_init)\<rparr>\<rparr>)))"

definition quic_stream_recv_get :: "sock \<Rightarrow> u64 \<Rightarrow> bool \<Rightarrow> stream_ptr \<times> sock" where
  "quic_stream_recv_get s sid serv = stream_get s sid"

definition quic_stream_send_get :: "sock \<Rightarrow> u64 \<Rightarrow> u32 \<Rightarrow> bool \<Rightarrow> stream_ptr \<times> sock" where
  "quic_stream_send_get s sid flag serv = stream_get s sid"

definition stream_put :: "sock \<Rightarrow> u64 \<Rightarrow> quic_stream \<Rightarrow> sock" where
  "stream_put s sid st = s\<lparr>streams := (streams s)\<lparr>strm := (strm (streams s))(sid \<mapsto> st)\<rparr>\<rparr>"

text \<open>
  A connection-id set is ordered by sequence number. The first and last numbers are read off
  the ends of the list; the source reads them on non-empty sets only, and 0 stands for the
  read on an empty one.
\<close>

definition quic_connection_id_first_number :: "quic_connection_id_set \<Rightarrow> u64" where
  "quic_connection_id_first_number cs =
     (case cid_entries cs of [] \<Rightarrow> 0 | e # _ \<Rightarrow> cid_number e)"

definition quic_connection_id_last_number :: "quic_connection_id_set \<Rightarrow> u64" where
  "quic_connection_id_last_number cs =
     (case rev (cid_entries cs) of [] \<Rightarrow> 0 | e # _ \<Rightarrow> cid_number e)"

definition cid_append :: "quic_connection_id_set \<Rightarrow> u64 \<Rightarrow> bytes \<Rightarrow> quic_connection_id_set"
  where
  "cid_append cs n d = cs\<lparr>cid_entries := cid_entries cs @ [\<lparr>cid_number = n, cid_bytes = d\<rparr>]\<rparr>"

definition quic_connection_id_remove ::
  "quic_connection_id_set \<Rightarrow> u64 \<Rightarrow> quic_connection_id_set" where
  "quic_connection_id_remove cs n =
     cs\<lparr>cid_entries := filter (\<lambda>e. cid_number e \<noteq> n) (cid_entries cs)\<rparr>"

definition quic_outq_ctrl_tail :: "sock \<Rightarrow> sk_buff \<Rightarrow> bool \<Rightarrow> sock" where
  "quic_outq_ctrl_tail s skb cork =
     s\<lparr>outq := (outq s)\<lparr>ctrl_queue := ctrl_queue (outq s) @ [(skb, cork)]\<rparr>\<rparr>"

definition quic_outq_retransmit_check :: "sock \<Rightarrow> u64 \<Rightarrow> u64 \<Rightarrow> u64 \<Rightarrow> u64 \<Rightarrow> sock" where
  "quic_outq_retransmit_check s largest smallest ack_largest ack_delay =
     s\<lparr>outq := (outq s)\<lparr>retransmit_checks :=
          retransmit_checks (outq s) @ [(largest, smallest, ack_largest, ack_delay)]\<rparr>\<rparr>"

text \<open>\<open>InQ.reasm_tail\<close>: the spec does not say when it fails, so its outcome is a field of
  the state.\<close>

definition quic_inq_reasm_tail :: "sock \<Rightarrow> rcv_skb \<Rightarrow> errno option \<times> sock" where
  "quic_inq_reasm_tail s nskb =
     (case reasm_err (inq s) of
        Some e \<Rightarrow> (Some e, s)
      | None \<Rightarrow> (None, s\<lparr>inq := (inq s)\<lparr>reasm_queue := reasm_queue (inq s) @ [nskb]\<rparr>\<rparr>))"

definition quic_set_state :: "sock \<Rightarrow> quic_state \<Rightarrow> sock" where
  "quic_set_state s st = s\<lparr>sk_state := st\<rparr>"

definition sk_state_change :: "sock \<Rightarrow> sock" where
  "sk_state_change s = s\<lparr>sk_state_changes := Suc (sk_state_changes s)\<rparr>"

definition sk_write_space :: "sock \<Rightarrow> sock" where
  "sk_write_space s = s\<lparr>sk_write_spaces := Suc (sk_write_spaces s)\<rparr>"

definition quic_set_sk_addr :: "sock \<Rightarrow> bytes \<Rightarrow> bool \<Rightarrow> sock" where
  "quic_set_sk_addr s a local =
     (if local then s\<lparr>sk_local_addr := a\<rparr> else s\<lparr>sk_peer_addr := a\<rparr>)"

text \<open>The errno value the source negates into \<open>sk->sk_err\<close>.\<close>

definition EPIPE :: int where
  "EPIPE = 32"

text \<open>\<open>strlen\<close> of the close phrase: the bytes before its first NUL.\<close>

definition strlen :: "bytes \<Rightarrow> nat" where
  "strlen p = length (takeWhile (\<lambda>c. c \<noteq> 0) p)"


text \<open>\<open>quic_connection_id_append\<close> allocates the entry; the caller stores the new set.\<close>

definition quic_connection_id_append ::
  "sock \<Rightarrow> quic_connection_id_set \<Rightarrow> u64 \<Rightarrow> bytes \<Rightarrow> (errno + quic_connection_id_set) \<times> sock"
  where
  "quic_connection_id_append s cs n d =
     (case alloc s of
        (False, s1) \<Rightarrow> (Inl ENOMEM, s1)
      | (True, s1) \<Rightarrow> (Inr (cid_append cs n d), s1))"

section \<open>Frame types (frame.h)\<close>

abbreviation (input) QUIC_FRAME_ACK :: u8 where "QUIC_FRAME_ACK \<equiv> 0x02"
abbreviation (input) QUIC_FRAME_ACK_ECN :: u8 where "QUIC_FRAME_ACK_ECN \<equiv> 0x03"
abbreviation (input) QUIC_FRAME_RESET_STREAM :: u8 where "QUIC_FRAME_RESET_STREAM \<equiv> 0x04"
abbreviation (input) QUIC_FRAME_CRYPTO :: u8 where "QUIC_FRAME_CRYPTO \<equiv> 0x06"
abbreviation (input) QUIC_FRAME_NEW_TOKEN :: u8 where "QUIC_FRAME_NEW_TOKEN \<equiv> 0x07"
abbreviation (input) QUIC_FRAME_STREAM :: u8 where "QUIC_FRAME_STREAM \<equiv> 0x08"
abbreviation (input) QUIC_FRAME_MAX_DATA :: u8 where "QUIC_FRAME_MAX_DATA \<equiv> 0x10"
abbreviation (input) QUIC_FRAME_MAX_STREAM_DATA :: u8 where "QUIC_FRAME_MAX_STREAM_DATA \<equiv> 0x11"
abbreviation (input) QUIC_FRAME_MAX_STREAMS_BIDI :: u8 where "QUIC_FRAME_MAX_STREAMS_BIDI \<equiv> 0x12"
abbreviation (input) QUIC_FRAME_MAX_STREAMS_UNI :: u8 where "QUIC_FRAME_MAX_STREAMS_UNI \<equiv> 0x13"
abbreviation (input) QUIC_FRAME_DATA_BLOCKED :: u8 where "QUIC_FRAME_DATA_BLOCKED \<equiv> 0x14"
abbreviation (input) QUIC_FRAME_STREAM_DATA_BLOCKED :: u8 where
  "QUIC_FRAME_STREAM_DATA_BLOCKED \<equiv> 0x15"
abbreviation (input) QUIC_FRAME_NEW_CONNECTION_ID :: u8 where "QUIC_FRAME_NEW_CONNECTION_ID \<equiv> 0x18"
abbreviation (input) QUIC_FRAME_RETIRE_CONNECTION_ID :: u8 where
  "QUIC_FRAME_RETIRE_CONNECTION_ID \<equiv> 0x19"
abbreviation (input) QUIC_FRAME_PATH_RESPONSE :: u8 where "QUIC_FRAME_PATH_RESPONSE \<equiv> 0x1B"
abbreviation (input) QUIC_FRAME_CONNECTION_CLOSE :: u8 where "QUIC_FRAME_CONNECTION_CLOSE \<equiv> 0x1C"
abbreviation (input) QUIC_FRAME_CONNECTION_CLOSE_APP :: u8 where
  "QUIC_FRAME_CONNECTION_CLOSE_APP \<equiv> 0x1D"
abbreviation (input) QUIC_FRAME_BASE_MAX :: u8 where "QUIC_FRAME_BASE_MAX \<equiv> 0x1E"

abbreviation (input) QUIC_STREAM_BIT_FIN :: u8 where "QUIC_STREAM_BIT_FIN \<equiv> 0x01"
abbreviation (input) QUIC_STREAM_BIT_LEN :: u8 where "QUIC_STREAM_BIT_LEN \<equiv> 0x02"
abbreviation (input) QUIC_STREAM_BIT_OFF :: u8 where "QUIC_STREAM_BIT_OFF \<equiv> 0x04"

section \<open>Encoder payloads\<close>

text \<open>
  \<open>struct quic_msginfo\<close>: the stream (by its id), the message iterator (the bytes it still
  holds, and whether \<open>copy_from_iter_full\<close> can read the user memory behind it) and the test
  \<open>info->flag & QUIC_STREAM_FLAG_FIN\<close>.
\<close>

record quic_msginfo =
  mi_stream :: u64
  mi_msg :: bytes
  mi_copy_ok :: bool
  mi_flag_fin :: bool

record quic_errinfo =
  ei_stream_id :: u64
  ei_errcode :: u64

datatype path_sel = PATH_SRC | PATH_DST

text \<open>
  What the \<open>void *data\<close> of \<open>quic_frame_create\<close> points to. An encoder handed a payload
  of another type reads memory of the wrong type: its run is \<open>Undefined\<close>.
\<close>

datatype frame_data =
    D_none
  | D_u32 u32
  | D_u64 u64
  | D_token quic_token
  | D_msginfo quic_msginfo
  | D_entropy bytes
  | D_path path_sel
  | D_errinfo quic_errinfo
  | D_inq
  | D_outq
  | D_stream u64

type_synonym create_ret = "(sk_buff option \<times> sock) run"

section \<open>Encoders\<close>

text \<open>
  The tail shared by the encoders that build the frame in a scratch array:
  \<open>skb = alloc_skb (frame_len); if (!skb) return NULL; skb_put_data (skb, frame, frame_len)\<close>.
\<close>

definition skb_of_scratch :: "sock \<Rightarrow> nat \<Rightarrow> bytes \<Rightarrow> create_ret" where
  "skb_of_scratch s cap frame =
     (case scratch cap frame of
        Undefined \<Rightarrow> Undefined
      | Returns f \<Rightarrow>
          (case alloc s of
             (False, s1) \<Rightarrow> Returns (None, s1)
           | (True, s1) \<Rightarrow> Returns (Some (new_skb f), s1)))"

text \<open>The encoders that write into \<open>skb->data\<close> directly: the bytes must fit the size asked
  of \<open>alloc_skb\<close>.\<close>

definition skb_filled :: "sock \<Rightarrow> nat \<Rightarrow> bytes \<Rightarrow> create_ret" where
  "skb_filled s cap bs = (if length bs \<le> cap then Returns (Some (new_skb bs), s) else Undefined)"

text \<open>The gap blocks of an ACK frame, from the highest block down; the argument is the block
  array reversed. The block fields are 16-bit and the differences are taken in \<open>int\<close>.\<close>

fun ack_gap_bytes :: "quic_gap_ack_block list \<Rightarrow> bytes" where
  "ack_gap_bytes [] = []"
| "ack_gap_bytes [g0] =
     quic_put_var (word_of_int (uint (gab_end g0) - uint (gab_start g0)))
     @ quic_put_var (word_of_int (uint (gab_start g0) - 2))"
| "ack_gap_bytes (gi # gp # gs) =
     quic_put_var (word_of_int (uint (gab_end gi) - uint (gab_start gi)))
     @ quic_put_var (word_of_int (uint (gab_start gi) - uint (gab_end gp) - 2))
     @ ack_gap_bytes (gp # gs)"

text \<open>The delay is \<open>pn_ts / BIT (exponent)\<close>, the 32-bit \<open>pn_ts\<close> divided as an
  \<open>unsigned long\<close> (64 bits) and stored back in 32 bits. \<open>BIT (n)\<close> is \<open>1UL << n\<close>, which
  is undefined from \<open>n = 64\<close> on.\<close>

definition quic_frame_ack_create :: "sock \<Rightarrow> frame_data \<Rightarrow> u8 \<Rightarrow> create_ret" where
  "quic_frame_ack_create s d type =
     (let gabs = pn_gabs (pnmap s);
          num_gabs = (of_nat (length gabs) :: u32);
          frame_len = (1 + 4 * 4 + 4 * num_gabs :: u32);
          largest = max_pn_seen (pnmap s);
          smallest = (if num_gabs \<noteq> 0 then base_pn (pnmap s) + ucast (gab_end (last gabs))
                      else min_pn_seen (pnmap s));
          range' = largest - smallest
      in case alloc s of
           (False, s1) \<Rightarrow> Returns (None, s1)
         | (True, s1) \<Rightarrow>
             if ack_delay_exponent (outq s) \<ge> 64 then Undefined
             else
               let pn_ts = jiffies_usecs s - max_pn_ts (pnmap s);
                   delay = (ucast ((ucast pn_ts :: u64) div 2 ^ ack_delay_exponent (outq s)) :: u32)
               in skb_filled s1 (unat frame_len)
                    (quic_put_var (ucast type) @ quic_put_var (ucast largest)
                     @ quic_put_var (ucast delay) @ quic_put_var (ucast num_gabs)
                     @ quic_put_var (ucast range') @ ack_gap_bytes (rev gabs)))"

definition quic_frame_ping_create :: "sock \<Rightarrow> frame_data \<Rightarrow> u8 \<Rightarrow> create_ret" where
  "quic_frame_ping_create s d type = skb_of_scratch s 10 (quic_put_var (ucast type))"

definition quic_frame_padding_create :: "sock \<Rightarrow> frame_data \<Rightarrow> u8 \<Rightarrow> create_ret" where
  "quic_frame_padding_create s d type =
     (case d of
        D_u32 frame_len \<Rightarrow>
          (case alloc s of
             (False, s1) \<Rightarrow> Returns (None, s1)
           | (True, s1) \<Rightarrow>
               let n = unat (frame_len + 1); hdr = quic_put_var (ucast type)
               in skb_filled s1 n (hdr @ replicate (n - length hdr) 0))
      | _ \<Rightarrow> Undefined)"

definition quic_frame_new_token_create :: "sock \<Rightarrow> frame_data \<Rightarrow> u8 \<Rightarrow> create_ret" where
  "quic_frame_new_token_create s d type =
     (case d of
        D_token tk \<Rightarrow>
          (case alloc s of
             (False, s1) \<Rightarrow> Returns (None, s1)
           | (True, s1) \<Rightarrow>
               (case mem_read (tk_data tk) (unat (tk_len tk)) of
                  None \<Rightarrow> Undefined
                | Some dat \<Rightarrow>
                    skb_filled s1 (unat (tk_len tk + 4))
                      (quic_put_var (ucast type) @ quic_put_var (ucast (tk_len tk)) @ dat)))
      | _ \<Rightarrow> Undefined)"

definition quic_frame_stream_create :: "sock \<Rightarrow> frame_data \<Rightarrow> u8 \<Rightarrow> create_ret" where
  "quic_frame_stream_create s d type0 =
     (case d of
        D_msginfo info \<Rightarrow>
          (case strm (streams s) (mi_stream info) of
             None \<Rightarrow> Undefined
           | Some stream \<Rightarrow>
               let max_frame_len = packet_max_payload s;
                   sid = mi_stream info;
                   hlen0 = (1 + of_nat (quic_var_len sid) :: u32);
                   off = (send_offset stream \<noteq> 0);
                   type1 = (if off then type0 OR QUIC_STREAM_BIT_OFF else type0);
                   hlen1 = (if off then hlen0 + of_nat (quic_var_len (send_offset stream))
                            else hlen0);
                   type2 = type1 OR QUIC_STREAM_BIT_LEN;
                   hlen = hlen1 + of_nat (quic_var_len (ucast max_frame_len));
                   count = (of_nat (length (mi_msg info)) :: u32);
                   fits = (count \<le> max_frame_len - hlen);
                   type = (if fits \<and> mi_flag_fin info then type2 OR QUIC_STREAM_BIT_FIN
                           else type2);
                   msg_len = (if fits then count else max_frame_len - hlen)
               in (case alloc s of
                    (False, s1) \<Rightarrow> Returns (None, s1)
                  | (True, s1) \<Rightarrow>
                      let has_off = (type AND QUIC_STREAM_BIT_OFF \<noteq> 0);
                          hdr = quic_put_var (ucast type) @ quic_put_var sid
                                @ (if has_off then quic_put_var (send_offset stream) else [])
                                @ quic_put_var (ucast msg_len);
                          cap = unat (msg_len + hlen)
                      in if \<not> mi_copy_ok info then
                           (if length hdr \<le> cap then Returns (None, s1) else Undefined)
                         else
                           (case mem_read (mi_msg info) (unat msg_len) of
                              None \<Rightarrow> Undefined
                            | Some dat \<Rightarrow>
                                if length (hdr @ dat) \<le> cap then
                                  Returns
                                    (Some ((new_skb (hdr @ dat))
                                       \<lparr>cb_frame_type := type, cb_stream := Some sid,
                                        cb_stream_offset :=
                                          (if has_off then send_offset stream else 0),
                                        cb_data_bytes := msg_len\<rparr>),
                                     stream_put s1 sid
                                       (stream\<lparr>send_offset :=
                                          send_offset stream + ucast msg_len\<rparr>))
                                else Undefined)))
      | _ \<Rightarrow> Undefined)"

definition quic_frame_handshake_done_create :: "sock \<Rightarrow> frame_data \<Rightarrow> u8 \<Rightarrow> create_ret"
  where
  "quic_frame_handshake_done_create s d type = skb_of_scratch s 10 (quic_put_var (ucast type))"

definition quic_frame_crypto_create :: "sock \<Rightarrow> frame_data \<Rightarrow> u8 \<Rightarrow> create_ret" where
  "quic_frame_crypto_create s d type =
     (case d of
        D_token tk \<Rightarrow>
          (case alloc s of
             (False, s1) \<Rightarrow> Returns (None, s1)
           | (True, s1) \<Rightarrow>
               (case mem_read (tk_data tk) (unat (tk_len tk)) of
                  None \<Rightarrow> Undefined
                | Some dat \<Rightarrow>
                    skb_filled s1 (unat (tk_len tk + 8))
                      (quic_put_var (ucast type) @ quic_put_var 0
                       @ quic_put_var (ucast (tk_len tk)) @ dat)))
      | _ \<Rightarrow> Undefined)"


definition quic_frame_retire_connection_id_create :: "sock \<Rightarrow> frame_data \<Rightarrow> u8 \<Rightarrow> create_ret"
  where
  "quic_frame_retire_connection_id_create s d type =
     (case d of
        D_u64 number \<Rightarrow>
          (case skb_of_scratch s 10 (quic_put_var (ucast type) @ quic_put_var number) of
             Undefined \<Rightarrow> Undefined
           | Returns (None, s1) \<Rightarrow> Returns (None, s1)
           | Returns (Some skb, s1) \<Rightarrow>
               Returns (Some skb, s1\<lparr>dest := quic_connection_id_remove (dest s1) number\<rparr>))
      | _ \<Rightarrow> Undefined)"

text \<open>
  \<open>conn_id\<close> is filled by \<open>get_random_bytes\<close>; \<open>token\<close> is declared, never written, and
  copied into the frame: its 16 bytes are whatever the stack held.
\<close>

definition quic_frame_new_connection_id_create :: "sock \<Rightarrow> frame_data \<Rightarrow> u8 \<Rightarrow> create_ret"
  where
  "quic_frame_new_connection_id_create s d type =
     (case d of
        D_u64 prior \<Rightarrow>
          (let seqno = quic_connection_id_last_number (source s) + 1;
               (conn_id, s0) = get_random_bytes s 16;
               token = map (uninit s) [0 ..< 16]
           in case skb_of_scratch s0 100
                     (quic_put_var (ucast type) @ quic_put_var seqno @ quic_put_var prior
                      @ quic_put_var 16 @ conn_id @ token) of
                Undefined \<Rightarrow> Undefined
              | Returns (None, s1) \<Rightarrow> Returns (None, s1)
              | Returns (Some skb, s1) \<Rightarrow>
                  (case quic_connection_id_append s1 (source s1) seqno conn_id of
                     (Inl err, s2) \<Rightarrow> Returns (None, s2)
                   | (Inr cs, s2) \<Rightarrow> Returns (Some skb, s2\<lparr>source := cs\<rparr>)))
      | _ \<Rightarrow> Undefined)"

definition quic_frame_path_response_create :: "sock \<Rightarrow> frame_data \<Rightarrow> u8 \<Rightarrow> create_ret"
  where
  "quic_frame_path_response_create s d type =
     (case d of
        D_entropy e \<Rightarrow>
          (case mem_read e 8 of
             None \<Rightarrow> Undefined
           | Some e8 \<Rightarrow> skb_of_scratch s 10 (quic_put_var (ucast type) @ e8))
      | _ \<Rightarrow> Undefined)"

definition quic_frame_path_challenge_create :: "sock \<Rightarrow> frame_data \<Rightarrow> u8 \<Rightarrow> create_ret"
  where
  "quic_frame_path_challenge_create s d type =
     (case d of
        D_path sel \<Rightarrow>
          (let (e, s0) = get_random_bytes s 8;
               s1 = (case sel of
                       PATH_SRC \<Rightarrow> s0\<lparr>src := (src s0)\<lparr>entropy := e\<rparr>\<rparr>
                     | PATH_DST \<Rightarrow> s0\<lparr>dst := (dst s0)\<lparr>entropy := e\<rparr>\<rparr>)
           in skb_of_scratch s1 10 (quic_put_var (ucast type) @ e))
      | _ \<Rightarrow> Undefined)"

definition quic_frame_reset_stream_create :: "sock \<Rightarrow> frame_data \<Rightarrow> u8 \<Rightarrow> create_ret"
  where
  "quic_frame_reset_stream_create s d type =
     (case d of
        D_errinfo info \<Rightarrow>
          (case quic_stream_find (streams s) (ei_stream_id info) of
             None \<Rightarrow> Returns (None, s)
           | Some stream \<Rightarrow>
               (case skb_of_scratch s 20
                       (quic_put_var (ucast type) @ quic_put_var (ei_stream_id info)
                        @ quic_put_var (ei_errcode info) @ quic_put_var (send_offset stream)) of
                  Undefined \<Rightarrow> Undefined
                | Returns (None, s1) \<Rightarrow> Returns (None, s1)
                | Returns (Some skb, s1) \<Rightarrow>
                    Returns
                      (Some (skb\<lparr>cb_err_code := ei_errcode info,
                                 cb_stream := Some (ei_stream_id info)\<rparr>),
                       if send_stream_active (streams s1) = ei_stream_id info
                       then s1\<lparr>streams := (streams s1)\<lparr>send_stream_active := - 1\<rparr>\<rparr>
                       else s1)))
      | _ \<Rightarrow> Undefined)"

definition quic_frame_stop_sending_create :: "sock \<Rightarrow> frame_data \<Rightarrow> u8 \<Rightarrow> create_ret"
  where
  "quic_frame_stop_sending_create s d type =
     (case d of
        D_errinfo info \<Rightarrow>
          skb_of_scratch s 10
            (quic_put_var (ucast type) @ quic_put_var (ei_stream_id info)
             @ quic_put_var (ei_errcode info))
      | _ \<Rightarrow> Undefined)"

definition quic_frame_max_data_create :: "sock \<Rightarrow> frame_data \<Rightarrow> u8 \<Rightarrow> create_ret" where
  "quic_frame_max_data_create s d type =
     (case d of
        D_inq \<Rightarrow>
          skb_of_scratch s 10 (quic_put_var (ucast type) @ quic_put_var (inq_max_bytes (inq s)))
      | _ \<Rightarrow> Undefined)"

definition quic_frame_max_stream_data_create :: "sock \<Rightarrow> frame_data \<Rightarrow> u8 \<Rightarrow> create_ret"
  where
  "quic_frame_max_stream_data_create s d type =
     (case d of
        D_stream sid \<Rightarrow>
          (case strm (streams s) sid of
             None \<Rightarrow> Undefined
           | Some stream \<Rightarrow>
               skb_of_scratch s 10
                 (quic_put_var (ucast type) @ quic_put_var sid
                  @ quic_put_var (recv_max_bytes stream)))
      | _ \<Rightarrow> Undefined)"

definition quic_frame_max_streams_uni_create :: "sock \<Rightarrow> frame_data \<Rightarrow> u8 \<Rightarrow> create_ret"
  where
  "quic_frame_max_streams_uni_create s d type =
     (case d of
        D_u64 max' \<Rightarrow> skb_of_scratch s 10 (quic_put_var (ucast type) @ quic_put_var max')
      | _ \<Rightarrow> Undefined)"

definition quic_frame_max_streams_bidi_create :: "sock \<Rightarrow> frame_data \<Rightarrow> u8 \<Rightarrow> create_ret"
  where
  "quic_frame_max_streams_bidi_create s d type =
     (case d of
        D_u64 max' \<Rightarrow> skb_of_scratch s 10 (quic_put_var (ucast type) @ quic_put_var max')
      | _ \<Rightarrow> Undefined)"

text \<open>The phrase is a C string: \<open>strlen + 1\<close> bytes are copied, the last one its NUL.\<close>

definition quic_frame_connection_close_create :: "sock \<Rightarrow> frame_data \<Rightarrow> u8 \<Rightarrow> create_ret"
  where
  "quic_frame_connection_close_create s d type =
     (let phrase_len = (case close_phrase (outq s) of
                          None \<Rightarrow> (0 :: u32)
                        | Some p \<Rightarrow> of_nat (strlen p) + 1);
          phrase = (case close_phrase (outq s) of
                      None \<Rightarrow> []
                    | Some p \<Rightarrow> takeWhile (\<lambda>c. c \<noteq> 0) p @ [0])
      in case mem_read phrase (unat phrase_len) of
           None \<Rightarrow> Undefined
         | Some dat \<Rightarrow>
             skb_of_scratch s 100
               (quic_put_var (ucast type) @ quic_put_var (close_errcode (outq s))
                @ (if type = QUIC_FRAME_CONNECTION_CLOSE then quic_put_var (close_frame (outq s))
                   else [])
                @ quic_put_var (ucast phrase_len) @ dat))"

definition quic_frame_data_blocked_create :: "sock \<Rightarrow> frame_data \<Rightarrow> u8 \<Rightarrow> create_ret"
  where
  "quic_frame_data_blocked_create s d type =
     (case d of
        D_outq \<Rightarrow>
          skb_of_scratch s 10 (quic_put_var (ucast type) @ quic_put_var (outq_max_bytes (outq s)))
      | _ \<Rightarrow> Undefined)"

definition quic_frame_stream_data_blocked_create :: "sock \<Rightarrow> frame_data \<Rightarrow> u8 \<Rightarrow> create_ret"
  where
  "quic_frame_stream_data_blocked_create s d type =
     (case d of
        D_stream sid \<Rightarrow>
          (case strm (streams s) sid of
             None \<Rightarrow> Undefined
           | Some stream \<Rightarrow>
               skb_of_scratch s 10
                 (quic_put_var (ucast type) @ quic_put_var sid
                  @ quic_put_var (send_max_bytes stream)))
      | _ \<Rightarrow> Undefined)"

definition quic_frame_streams_blocked_uni_create :: "sock \<Rightarrow> frame_data \<Rightarrow> u8 \<Rightarrow> create_ret"
  where
  "quic_frame_streams_blocked_uni_create s d type =
     (case d of
        D_u32 max' \<Rightarrow>
          skb_of_scratch s 10
            (quic_put_var (ucast type) @ quic_put_var (ucast (drop_bit 2 max' + 1)))
      | _ \<Rightarrow> Undefined)"

definition quic_frame_streams_blocked_bidi_create :: "sock \<Rightarrow> frame_data \<Rightarrow> u8 \<Rightarrow> create_ret"
  where
  "quic_frame_streams_blocked_bidi_create s d type =
     (case d of
        D_u32 max' \<Rightarrow>
          skb_of_scratch s 10
            (quic_put_var (ucast type) @ quic_put_var (ucast (drop_bit 2 max' + 1)))
      | _ \<Rightarrow> Undefined)"

section \<open>The dispatch table and \<open>quic_frame_create\<close>\<close>

text \<open>The \<open>frame_create\<close> column of \<open>quic_frame_ops\<close>, for an index up to 0x1E.\<close>

definition frame_create_op :: "u8 \<Rightarrow> sock \<Rightarrow> frame_data \<Rightarrow> u8 \<Rightarrow> create_ret" where
  "frame_create_op t =
     (if t = 0x00 then quic_frame_padding_create
      else if t = 0x01 then quic_frame_ping_create
      else if t = 0x02 \<or> t = 0x03 then quic_frame_ack_create
      else if t = 0x04 then quic_frame_reset_stream_create
      else if t = 0x05 then quic_frame_stop_sending_create
      else if t = 0x06 then quic_frame_crypto_create
      else if t = 0x07 then quic_frame_new_token_create
      else if t \<le> 0x0F then quic_frame_stream_create
      else if t = 0x10 then quic_frame_max_data_create
      else if t = 0x11 then quic_frame_max_stream_data_create
      else if t = 0x12 then quic_frame_max_streams_bidi_create
      else if t = 0x13 then quic_frame_max_streams_uni_create
      else if t = 0x14 then quic_frame_data_blocked_create
      else if t = 0x15 then quic_frame_stream_data_blocked_create
      else if t = 0x16 then quic_frame_streams_blocked_bidi_create
      else if t = 0x17 then quic_frame_streams_blocked_uni_create
      else if t = 0x18 then quic_frame_new_connection_id_create
      else if t = 0x19 then quic_frame_retire_connection_id_create
      else if t = 0x1A then quic_frame_path_challenge_create
      else if t = 0x1B then quic_frame_path_response_create
      else if t = 0x1C \<or> t = 0x1D then quic_frame_connection_close_create
      else quic_frame_handshake_done_create)"

definition quic_frame_create :: "sock \<Rightarrow> u8 \<Rightarrow> frame_data \<Rightarrow> create_ret" where
  "quic_frame_create s type d =
     (if type > QUIC_FRAME_BASE_MAX then Returns (None, s)
      else
        (case frame_create_op type s d type of
           Undefined \<Rightarrow> Undefined
         | Returns (None, s1) \<Rightarrow> Returns (None, s1)
         | Returns (Some skb, s1) \<Rightarrow>
             Returns
               (Some (if cb_frame_type skb = 0 then skb\<lparr>cb_frame_type := type\<rparr> else skb), s1)))"


section \<open>Decoders\<close>

text \<open>
  A decoder gets the payload after the type byte (\<open>skb->data\<close>, of \<open>skb->len\<close> bytes) and
  returns the negative error code (\<open>Inl\<close>) or \<open>skb->len - len\<close>, the number of bytes it
  consumed (\<open>Inr\<close>), together with the socket as it left it.
\<close>

type_synonym process_ret = "((errno + nat) \<times> sock) run"

text \<open>A write through a stream pointer.\<close>

definition stream_upd :: "sock \<Rightarrow> u64 \<Rightarrow> (quic_stream \<Rightarrow> quic_stream) \<Rightarrow> sock" where
  "stream_upd s sid f =
     (case strm (streams s) sid of None \<Rightarrow> s | Some st \<Rightarrow> stream_put s sid (f st))"

definition quic_frame_crypto_process :: "sock \<Rightarrow> bytes \<Rightarrow> u8 \<Rightarrow> process_ret" where
  "quic_frame_crypto_process s skb type =
     (case quic_get_var skb of
        None \<Rightarrow> Returns (Inl EINVAL, s)
      | Some (offset, p1) \<Rightarrow>
          if offset \<noteq> 0 then Returns (Inl EINVAL, s)
          else
            (case quic_get_var p1 of
               None \<Rightarrow> Returns (Inl EINVAL, s)
             | Some (length', p) \<Rightarrow>
                 if unat length' > length p then Returns (Inl EINVAL, s)
                 else
                   (case deref p of
                      None \<Rightarrow> Undefined
                    | Some b \<Rightarrow>
                        if b \<noteq> 4 then Returns (Inl EINVAL, s)
                        else
                          (case alloc s of
                             (False, s1) \<Rightarrow> Returns (Inl ENOMEM, s1)
                           | (True, s1) \<Rightarrow>
                               (case mem_read p (unat length') of
                                  None \<Rightarrow> Undefined
                                | Some dat \<Rightarrow>
                                    Returns
                                      (Inr (length skb - (length p - unat length')),
                                       s1\<lparr>ticket :=
                                            \<lparr>tk_data = dat, tk_len = ucast length'\<rparr>\<rparr>))))))"

text \<open>The stream comes from \<open>quic_stream_recv_get\<close> and is tested with \<open>!stream\<close>: a
  \<open>NULL\<close> is \<open>-EINVAL\<close>, while an \<open>ERR_PTR\<close> passes the test, is tagged on the cloned
  buffer as its stream and goes to \<open>quic_inq_reasm_tail\<close>, which has no stream behind that
  pointer.\<close>

definition quic_frame_stream_process :: "sock \<Rightarrow> bytes \<Rightarrow> u8 \<Rightarrow> process_ret" where
  "quic_frame_stream_process s skb type =
     (case quic_get_var skb of
        None \<Rightarrow> Returns (Inl EINVAL, s)
      | Some (stream_id, p1) \<Rightarrow>
          (case (if type AND QUIC_STREAM_BIT_OFF \<noteq> 0 then quic_get_var p1 else Some (0, p1)) of
             None \<Rightarrow> Returns (Inl EINVAL, s)
           | Some (offset, p2) \<Rightarrow>
               (case (if type AND QUIC_STREAM_BIT_LEN \<noteq> 0 then
                        (case quic_get_var p2 of
                           None \<Rightarrow> None
                         | Some (payload_len, p) \<Rightarrow>
                             if unat payload_len > length p then None else Some (payload_len, p))
                      else Some (of_nat (length p2), p2)) of
                  None \<Rightarrow> Returns (Inl EINVAL, s)
                | Some (payload_len, p) \<Rightarrow>
                    (case quic_stream_recv_get s stream_id (is_serv s) of
                       (Null_ptr, s1) \<Rightarrow> Returns (Inl EINVAL, s1)
                     | (Err_ptr e, s1) \<Rightarrow>
                         (case alloc s1 of
                            (False, s2) \<Rightarrow> Returns (Inl ENOMEM, s2)
                          | (True, s2) \<Rightarrow> Undefined)
                     | (Stream_ptr stream, s1) \<Rightarrow>
                         (case alloc s1 of
                            (False, s2) \<Rightarrow> Returns (Inl ENOMEM, s2)
                          | (True, s2) \<Rightarrow>
                              (case mem_read p (unat payload_len) of
                                 None \<Rightarrow> Undefined
                               | Some dat \<Rightarrow>
                                   (case quic_inq_reasm_tail s2
                                           \<lparr>rcv_data = dat, rcb_stream = stream_id,
                                            rcb_stream_fin = type AND QUIC_STREAM_BIT_FIN,
                                            rcb_stream_offset = offset\<rparr> of
                                      (Some err, s3) \<Rightarrow> Returns (Inl err, s3)
                                    | (None, s3) \<Rightarrow>
                                        Returns
                                          (Inr (length skb - (length p - unat payload_len)),
                                           s3))))))))"

text \<open>The loop of \<open>quic_frame_ack_process\<close> over the \<open>count\<close> further ranges; \<open>None\<close> is
  its \<open>return -EINVAL\<close>.\<close>

primrec ack_process_ranges :: "sock \<Rightarrow> bytes \<Rightarrow> u64 \<Rightarrow> nat \<Rightarrow> bytes option \<times> sock" where
  "ack_process_ranges s p smallest 0 = (Some p, s)"
| "ack_process_ranges s p smallest (Suc n) =
     (case quic_get_var p of
        None \<Rightarrow> (None, s)
      | Some (gap, p1) \<Rightarrow>
          (case quic_get_var p1 of
             None \<Rightarrow> (None, s)
           | Some (range', p2) \<Rightarrow>
               let largest = smallest - gap - 2;
                   smallest' = largest - range'
               in ack_process_ranges (quic_outq_retransmit_check s largest smallest' 0 0)
                    p2 smallest' n))"

definition quic_frame_ack_process :: "sock \<Rightarrow> bytes \<Rightarrow> u8 \<Rightarrow> process_ret" where
  "quic_frame_ack_process s skb type =
     (case quic_get_var skb of
        None \<Rightarrow> Returns (Inl EINVAL, s)
      | Some (largest, p1) \<Rightarrow>
          (case quic_get_var p1 of
             None \<Rightarrow> Returns (Inl EINVAL, s)
           | Some (delay, p2) \<Rightarrow>
               (case quic_get_var p2 of
                  None \<Rightarrow> Returns (Inl EINVAL, s)
                | Some (count, p3) \<Rightarrow>
                    if count > 16 then Returns (Inl EINVAL, s)
                    else
                      (case quic_get_var p3 of
                         None \<Rightarrow> Returns (Inl EINVAL, s)
                       | Some (range', p4) \<Rightarrow>
                           let smallest = largest - range';
                               s1 = quic_outq_retransmit_check s largest smallest largest delay
                           in (case ack_process_ranges s1 p4 smallest (unat count) of
                                (None, s2) \<Rightarrow> Returns (Inl EINVAL, s2)
                              | (Some p5, s2) \<Rightarrow>
                                  if type = QUIC_FRAME_ACK_ECN then
                                    (case quic_get_var p5 of
                                       None \<Rightarrow> Returns (Inl EINVAL, s2)
                                     | Some (c1, p6) \<Rightarrow>
                                         (case quic_get_var p6 of
                                            None \<Rightarrow> Returns (Inl EINVAL, s2)
                                          | Some (c2, p7) \<Rightarrow>
                                              (case quic_get_var p7 of
                                                 None \<Rightarrow> Returns (Inl EINVAL, s2)
                                               | Some (c3, p8) \<Rightarrow>
                                                   Returns
                                                     (Inr (length skb - length p8), s2))))
                                  else Returns (Inr (length skb - length p5), s2))))))"

text \<open>The loop \<open>for (; first < prior; first++)\<close> of \<open>quic_frame_new_connection_id_process\<close>;
  \<open>False\<close> is its \<open>return -ENOMEM\<close>.\<close>

function retire_prior :: "sock \<Rightarrow> u64 \<Rightarrow> u64 \<Rightarrow> (bool \<times> sock) run" where
  "retire_prior s first prior =
     (if first < prior then
        (case quic_frame_create s QUIC_FRAME_RETIRE_CONNECTION_ID (D_u64 first) of
           Undefined \<Rightarrow> Undefined
         | Returns (None, s1) \<Rightarrow> Returns (False, s1)
         | Returns (Some nskb, s1) \<Rightarrow>
             retire_prior (quic_outq_ctrl_tail s1 nskb True) (first + 1) prior)
      else Returns (True, s))"
  by pat_completeness auto
termination
proof (relation "measure (\<lambda>(s, first, prior). unat prior - unat first)")
  show "wf (measure (\<lambda>(s, first, prior). unat prior - unat first))" by simp
next
  fix s :: sock and first prior :: u64 and x2 x1 x2a s1 nskb
  assume lt: "first < prior"
  then have a: "unat first < unat prior"
    by (simp add: word_less_nat_alt)
  have "unat prior < 2 ^ 64"
    using unsigned_less [of prior] by simp
  with a have "unat first + unat (1 :: u64) < 2 ^ LENGTH(64)"
    by simp
  then have "unat (first + 1) = unat first + unat (1 :: u64)"
    by (simp only: unat_add_lem)
  moreover note a
  ultimately show "((quic_outq_ctrl_tail s1 nskb True, first + 1, prior), s, first, prior)
        \<in> measure (\<lambda>(s, first, prior). unat prior - unat first)"
    by simp
qed

declare retire_prior.simps [simp del]

definition quic_frame_new_connection_id_process :: "sock \<Rightarrow> bytes \<Rightarrow> u8 \<Rightarrow> process_ret"
  where
  "quic_frame_new_connection_id_process s skb type =
     (case quic_get_var skb of
        None \<Rightarrow> Returns (Inl EINVAL, s)
      | Some (seqno, p1) \<Rightarrow>
          (case quic_get_var p1 of
             None \<Rightarrow> Returns (Inl EINVAL, s)
           | Some (prior, p2) \<Rightarrow>
               (case quic_get_var p2 of
                  None \<Rightarrow> Returns (Inl EINVAL, s)
                | Some (length', p) \<Rightarrow>
                    if unat (length' + 16) > length p then Returns (Inl EINVAL, s)
                    else if seqno \<noteq> quic_connection_id_last_number (dest s) + 1 \<or> prior > seqno
                    then Returns (Inl EINVAL, s)
                    else
                      (case mem_read p (unat length') of
                         None \<Rightarrow> Undefined
                       | Some conn_id \<Rightarrow>
                           (case quic_connection_id_append s (dest s) seqno conn_id of
                              (Inl err, s1) \<Rightarrow> Returns (Inl err, s1)
                            | (Inr cs, s1) \<Rightarrow>
                                let s2 = s1\<lparr>dest := cs\<rparr>;
                                    first = quic_connection_id_first_number (dest s2);
                                    ret = length skb - (length p - unat (length' + 16))
                                in if prior \<le> first then Returns (Inr ret, s2)
                                   else
                                     (case retire_prior s2 first prior of
                                        Undefined \<Rightarrow> Undefined
                                      | Returns (False, s3) \<Rightarrow> Returns (Inl ENOMEM, s3)
                                      | Returns (True, s3) \<Rightarrow> Returns (Inr ret, s3)))))))"


text \<open>\<open>last\<close> and \<open>first\<close> are \<open>u32\<close> locals of the source.\<close>

definition quic_frame_retire_connection_id_process :: "sock \<Rightarrow> bytes \<Rightarrow> u8 \<Rightarrow> process_ret"
  where
  "quic_frame_retire_connection_id_process s skb type =
     (case quic_get_var skb of
        None \<Rightarrow> Returns (Inl EINVAL, s)
      | Some (seqno, p) \<Rightarrow>
          let last' = (ucast (quic_connection_id_last_number (source s)) :: u32);
              first = (ucast (quic_connection_id_first_number (source s)) :: u32)
          in if seqno \<noteq> ucast first \<or> seqno = ucast last' then Returns (Inl EINVAL, s)
             else
               let s1 = s\<lparr>source := quic_connection_id_remove (source s) seqno\<rparr>;
                   ret = length skb - length p
               in if (ucast last' :: u64) - seqno \<ge> ucast (max_count (source s1))
                  then Returns (Inr ret, s1)
                  else
                    (case quic_frame_create s1 QUIC_FRAME_NEW_CONNECTION_ID (D_u64 (seqno + 1)) of
                       Undefined \<Rightarrow> Undefined
                     | Returns (None, s2) \<Rightarrow> Returns (Inl ENOMEM, s2)
                     | Returns (Some nskb, s2) \<Rightarrow>
                         Returns (Inr ret, quic_outq_ctrl_tail s2 nskb True)))"

definition quic_frame_new_token_process :: "sock \<Rightarrow> bytes \<Rightarrow> u8 \<Rightarrow> process_ret" where
  "quic_frame_new_token_process s skb type =
     (case quic_get_var skb of
        None \<Rightarrow> Returns (Inl EINVAL, s)
      | Some (length', p) \<Rightarrow>
          if unat length' > length p then Returns (Inl EINVAL, s)
          else
            (case alloc s of
               (False, s1) \<Rightarrow> Returns (Inl ENOMEM, s1)
             | (True, s1) \<Rightarrow>
                 (case mem_read p (unat length') of
                    None \<Rightarrow> Undefined
                  | Some dat \<Rightarrow>
                      Returns
                        (Inr (length skb - (length p - unat length')),
                         s1\<lparr>token := \<lparr>tk_data = dat, tk_len = ucast length'\<rparr>\<rparr>))))"

definition quic_frame_handshake_done_process :: "sock \<Rightarrow> bytes \<Rightarrow> u8 \<Rightarrow> process_ret" where
  "quic_frame_handshake_done_process s skb type = Returns (Inr 0, s)"

definition quic_frame_padding_process :: "sock \<Rightarrow> bytes \<Rightarrow> u8 \<Rightarrow> process_ret" where
  "quic_frame_padding_process s skb type = Returns (Inr (length skb), s)"

definition quic_frame_ping_process :: "sock \<Rightarrow> bytes \<Rightarrow> u8 \<Rightarrow> process_ret" where
  "quic_frame_ping_process s skb type = Returns (Inr 0, s)"

definition quic_frame_path_challenge_process :: "sock \<Rightarrow> bytes \<Rightarrow> u8 \<Rightarrow> process_ret" where
  "quic_frame_path_challenge_process s skb type =
     (if length skb < 8 then Returns (Inl EINVAL, s)
      else
        (case mem_read skb 8 of
           None \<Rightarrow> Undefined
         | Some entropy' \<Rightarrow>
             (case quic_frame_create s QUIC_FRAME_PATH_RESPONSE (D_entropy entropy') of
                Undefined \<Rightarrow> Undefined
              | Returns (None, s1) \<Rightarrow> Returns (Inl ENOMEM, s1)
              | Returns (Some fskb, s1) \<Rightarrow>
                  Returns (Inr (length skb - (length skb - 8)),
                           quic_outq_ctrl_tail s1 fskb True))))"

text \<open>RESET_STREAM and STOP_SENDING test the stream with \<open>IS_ERR\<close>: an \<open>ERR_PTR\<close> is
  returned as its error, while \<open>NULL\<close> passes the test and is dereferenced
  (\<open>stream->recv.state\<close>, \<open>stream->send.state\<close>), in STOP_SENDING once the RESET_STREAM
  frame has been created.\<close>

definition quic_frame_reset_stream_process :: "sock \<Rightarrow> bytes \<Rightarrow> u8 \<Rightarrow> process_ret" where
  "quic_frame_reset_stream_process s skb type =
     (case quic_get_var skb of
        None \<Rightarrow> Returns (Inl EINVAL, s)
      | Some (stream_id, p1) \<Rightarrow>
          (case quic_get_var p1 of
             None \<Rightarrow> Returns (Inl EINVAL, s)
           | Some (errcode, p2) \<Rightarrow>
               (case quic_get_var p2 of
                  None \<Rightarrow> Returns (Inl EINVAL, s)
                | Some (finalsz, p) \<Rightarrow>
                    (case quic_stream_recv_get s stream_id (is_serv s) of
                       (Null_ptr, s1) \<Rightarrow> Undefined
                     | (Err_ptr e, s1) \<Rightarrow> Returns (Inl e, s1)
                     | (Stream_ptr stream, s1) \<Rightarrow>
                         Returns
                           (Inr (length skb - length p),
                            stream_upd s1 stream_id
                              (\<lambda>st. st\<lparr>recv_st := QUIC_STREAM_RECV_STATE_RESET_RECVD\<rparr>))))))"

definition quic_frame_stop_sending_process :: "sock \<Rightarrow> bytes \<Rightarrow> u8 \<Rightarrow> process_ret" where
  "quic_frame_stop_sending_process s skb type =
     (case quic_get_var skb of
        None \<Rightarrow> Returns (Inl EINVAL, s)
      | Some (stream_id, p1) \<Rightarrow>
          (case quic_get_var p1 of
             None \<Rightarrow> Returns (Inl EINVAL, s)
           | Some (errcode, p) \<Rightarrow>
               (case quic_stream_send_get s stream_id 0 (is_serv s) of
                  (Null_ptr, s1) \<Rightarrow>
                    (case quic_frame_create s1 QUIC_FRAME_RESET_STREAM
                            (D_errinfo \<lparr>ei_stream_id = stream_id, ei_errcode = errcode\<rparr>) of
                       Undefined \<Rightarrow> Undefined
                     | Returns (None, s2) \<Rightarrow> Returns (Inl ENOMEM, s2)
                     | Returns (Some nskb, s2) \<Rightarrow> Undefined)
                | (Err_ptr e, s1) \<Rightarrow> Returns (Inl e, s1)
                | (Stream_ptr stream, s1) \<Rightarrow>
                    (case quic_frame_create s1 QUIC_FRAME_RESET_STREAM
                            (D_errinfo \<lparr>ei_stream_id = stream_id, ei_errcode = errcode\<rparr>) of
                       Undefined \<Rightarrow> Undefined
                     | Returns (None, s2) \<Rightarrow> Returns (Inl ENOMEM, s2)
                     | Returns (Some nskb, s2) \<Rightarrow>
                         Returns
                           (Inr (length skb - length p),
                            quic_outq_ctrl_tail
                              (stream_upd s2 stream_id
                                 (\<lambda>st. st\<lparr>send_st := QUIC_STREAM_SEND_STATE_RESET_SENT\<rparr>))
                              nskb True)))))"

definition quic_frame_max_data_process :: "sock \<Rightarrow> bytes \<Rightarrow> u8 \<Rightarrow> process_ret" where
  "quic_frame_max_data_process s skb type =
     (case quic_get_var skb of
        None \<Rightarrow> Returns (Inl EINVAL, s)
      | Some (max_bytes, p) \<Rightarrow>
          Returns
            (Inr (length skb - length p),
             if max_bytes \<ge> outq_max_bytes (outq s)
             then s\<lparr>outq := (outq s)\<lparr>outq_max_bytes := max_bytes, outq_data_blocked := False\<rparr>\<rparr>
             else s))"

definition quic_frame_max_stream_data_process :: "sock \<Rightarrow> bytes \<Rightarrow> u8 \<Rightarrow> process_ret" where
  "quic_frame_max_stream_data_process s skb type =
     (case quic_get_var skb of
        None \<Rightarrow> Returns (Inl EINVAL, s)
      | Some (stream_id, p1) \<Rightarrow>
          (case quic_get_var p1 of
             None \<Rightarrow> Returns (Inl EINVAL, s)
           | Some (max_bytes, p) \<Rightarrow>
               (case quic_stream_find (streams s) stream_id of
                  None \<Rightarrow> Returns (Inl EINVAL, s)
                | Some stream \<Rightarrow>
                    Returns
                      (Inr (length skb - length p),
                       if max_bytes \<ge> send_max_bytes stream
                       then stream_upd s stream_id
                              (\<lambda>st. st\<lparr>send_max_bytes := max_bytes, send_data_blocked := False\<rparr>)
                       else s))))"

text \<open>The two MAX_STREAMS decoders also compute a stream id that nothing reads.\<close>

definition quic_frame_max_streams_uni_process :: "sock \<Rightarrow> bytes \<Rightarrow> u8 \<Rightarrow> process_ret" where
  "quic_frame_max_streams_uni_process s skb type =
     (case quic_get_var skb of
        None \<Rightarrow> Returns (Inl EINVAL, s)
      | Some (max', p) \<Rightarrow>
          Returns
            (Inr (length skb - length p),
             if max' < send_max_streams_uni (streams s) then s
             else sk_write_space
                    (s\<lparr>streams := (streams s)\<lparr>send_max_streams_uni := max',
                                                send_streams_uni := max'\<rparr>\<rparr>)))"

definition quic_frame_max_streams_bidi_process :: "sock \<Rightarrow> bytes \<Rightarrow> u8 \<Rightarrow> process_ret" where
  "quic_frame_max_streams_bidi_process s skb type =
     (case quic_get_var skb of
        None \<Rightarrow> Returns (Inl EINVAL, s)
      | Some (max', p) \<Rightarrow>
          Returns
            (Inr (length skb - length p),
             if max' < send_max_streams_bidi (streams s) then s
             else sk_write_space
                    (s\<lparr>streams := (streams s)\<lparr>send_max_streams_bidi := max',
                                                send_streams_bidi := max'\<rparr>\<rparr>)))"

text \<open>\<open>strcpy (close->phrase, p)\<close> reads up to and including the first NUL behind \<open>p\<close>.\<close>

definition strcpy_read :: "bytes \<Rightarrow> bytes option" where
  "strcpy_read p = (if 0 \<in> set p then Some (takeWhile (\<lambda>c. c \<noteq> 0) p @ [0]) else None)"

definition quic_frame_connection_close_process :: "sock \<Rightarrow> bytes \<Rightarrow> u8 \<Rightarrow> process_ret" where
  "quic_frame_connection_close_process s skb type =
     (case quic_get_var skb of
        None \<Rightarrow> Returns (Inl EINVAL, s)
      | Some (err_code, p1) \<Rightarrow>
          (case (if type = QUIC_FRAME_CONNECTION_CLOSE then quic_get_var p1 else Some (0, p1)) of
             None \<Rightarrow> Returns (Inl EINVAL, s)
           | Some (ftype, p2) \<Rightarrow>
               (case quic_get_var p2 of
                  None \<Rightarrow> Returns (Inl EINVAL, s)
                | Some (phrase_len, p) \<Rightarrow>
                    if unat phrase_len > length p then Returns (Inl EINVAL, s)
                    else
                      let closed =
                            Returns
                              (Inr (length skb - (length p - unat phrase_len)),
                               sk_state_change
                                 (quic_set_state (s\<lparr>sk_err := - EPIPE\<rparr>)
                                    QUIC_STATE_USER_CLOSED))
                      in if phrase_len \<noteq> 0 then
                           (if phrase_len > 80 then Returns (Inl EINVAL, s)
                            else
                              (case deref (drop (unat phrase_len - 1) p) of
                                 None \<Rightarrow> Undefined
                               | Some b \<Rightarrow>
                                   if b \<noteq> 0 then Returns (Inl EINVAL, s)
                                   else
                                     (case strcpy_read p of
                                        None \<Rightarrow> Undefined
                                      | Some phrase \<Rightarrow> closed)))
                         else closed)))"

definition quic_frame_data_blocked_process :: "sock \<Rightarrow> bytes \<Rightarrow> u8 \<Rightarrow> process_ret" where
  "quic_frame_data_blocked_process s skb type =
     (case quic_get_var skb of
        None \<Rightarrow> Returns (Inl EINVAL, s)
      | Some (max_bytes, p) \<Rightarrow>
          let recv_max_bytes' = inq_max_bytes (inq s);
              s0 = s\<lparr>inq := (inq s)\<lparr>inq_max_bytes := inq_bytes (inq s) + inq_window (inq s)\<rparr>\<rparr>
          in (case quic_frame_create s0 QUIC_FRAME_MAX_DATA D_inq of
               Undefined \<Rightarrow> Undefined
             | Returns (None, s1) \<Rightarrow>
                 Returns (Inl ENOMEM, s1\<lparr>inq := (inq s1)\<lparr>inq_max_bytes := recv_max_bytes'\<rparr>\<rparr>)
             | Returns (Some fskb, s1) \<Rightarrow>
                 Returns (Inr (length skb - length p), quic_outq_ctrl_tail s1 fskb True)))"

definition quic_frame_stream_data_blocked_process :: "sock \<Rightarrow> bytes \<Rightarrow> u8 \<Rightarrow> process_ret"
  where
  "quic_frame_stream_data_blocked_process s skb type =
     (case quic_get_var skb of
        None \<Rightarrow> Returns (Inl EINVAL, s)
      | Some (stream_id, p1) \<Rightarrow>
          (case quic_get_var p1 of
             None \<Rightarrow> Returns (Inl EINVAL, s)
           | Some (max_bytes, p) \<Rightarrow>
               (case quic_stream_find (streams s) stream_id of
                  None \<Rightarrow> Returns (Inl EINVAL, s)
                | Some stream \<Rightarrow>
                    let recv_max_bytes' = recv_max_bytes stream;
                        new_max = recv_bytes stream + recv_window stream;
                        s0 = stream_upd s stream_id (\<lambda>st. st\<lparr>recv_max_bytes := new_max\<rparr>)
                    in if recv_max_bytes' \<noteq> new_max then
                         (case quic_frame_create s0 QUIC_FRAME_MAX_STREAM_DATA
                                 (D_stream stream_id) of
                            Undefined \<Rightarrow> Undefined
                          | Returns (None, s1) \<Rightarrow>
                              Returns
                                (Inl ENOMEM,
                                 stream_upd s1 stream_id
                                   (\<lambda>st. st\<lparr>recv_max_bytes := recv_max_bytes'\<rparr>))
                          | Returns (Some fskb, s1) \<Rightarrow>
                              Returns (Inr (length skb - length p),
                                       quic_outq_ctrl_tail s1 fskb True))
                       else Returns (Inr (length skb - length p), s0))))"

definition quic_frame_streams_blocked_uni_process :: "sock \<Rightarrow> bytes \<Rightarrow> u8 \<Rightarrow> process_ret"
  where
  "quic_frame_streams_blocked_uni_process s skb type =
     (case quic_get_var skb of
        None \<Rightarrow> Returns (Inl EINVAL, s)
      | Some (max', p) \<Rightarrow>
          if max' < recv_max_streams_uni (streams s) then Returns (Inr (length skb - length p), s)
          else
            (case quic_frame_create s QUIC_FRAME_MAX_STREAMS_UNI (D_u64 max') of
               Undefined \<Rightarrow> Undefined
             | Returns (None, s1) \<Rightarrow> Returns (Inl ENOMEM, s1)
             | Returns (Some fskb, s1) \<Rightarrow>
                 let s2 = quic_outq_ctrl_tail s1 fskb True
                 in Returns
                      (Inr (length skb - length p),
                       s2\<lparr>streams := (streams s2)\<lparr>recv_max_streams_uni := max'\<rparr>\<rparr>)))"

definition quic_frame_streams_blocked_bidi_process :: "sock \<Rightarrow> bytes \<Rightarrow> u8 \<Rightarrow> process_ret"
  where
  "quic_frame_streams_blocked_bidi_process s skb type =
     (case quic_get_var skb of
        None \<Rightarrow> Returns (Inl EINVAL, s)
      | Some (max', p) \<Rightarrow>
          if max' < recv_max_streams_bidi (streams s) then Returns (Inr (length skb - length p), s)
          else
            (case quic_frame_create s QUIC_FRAME_MAX_STREAMS_BIDI (D_u64 max') of
               Undefined \<Rightarrow> Undefined
             | Returns (None, s1) \<Rightarrow> Returns (Inl ENOMEM, s1)
             | Returns (Some fskb, s1) \<Rightarrow>
                 let s2 = quic_outq_ctrl_tail s1 fskb True
                 in Returns
                      (Inr (length skb - length p),
                       s2\<lparr>streams := (streams s2)\<lparr>recv_max_streams_bidi := max'\<rparr>\<rparr>)))"

text \<open>\<open>memset (&path->addr[!path->active], 0, quic_addr_len (sk))\<close>.\<close>

definition addr_zero :: "nat \<Rightarrow> bytes \<Rightarrow> bytes" where
  "addr_zero n a = replicate (min n (length a)) 0 @ drop n a"

definition quic_frame_path_response_process :: "sock \<Rightarrow> bytes \<Rightarrow> u8 \<Rightarrow> process_ret" where
  "quic_frame_path_response_process s skb type =
     (if length skb < 8 then Returns (Inl EINVAL, s)
      else
        (case mem_read skb 8 of
           None \<Rightarrow> Undefined
         | Some entropy' \<Rightarrow>
             let s1 =
                   (if mem_read (entropy (src s)) 8 = Some entropy' \<and> pending (src s) then
                      let path = src s;
                          other = (\<not> active path);
                          path' = path\<lparr>pending := False,
                                       addr := (addr path)(other := addr_zero (addr_len s)
                                                                     (addr path other))\<rparr>
                      in quic_set_sk_addr
                           (s\<lparr>src := path',
                              udp_sock_puts := udp_sock_puts s @ [udp_sk s other],
                              udp_sk := (udp_sk s)(other := None)\<rparr>)
                           (addr path' (active path')) True
                    else s);
                 s2 =
                   (if mem_read (entropy (dst s1)) 8 = Some entropy' \<and> pending (dst s1) then
                      let path = dst s1;
                          other = (\<not> active path);
                          path' = path\<lparr>pending := False,
                                       addr := (addr path)(other := addr_zero (addr_len s1)
                                                                     (addr path other))\<rparr>
                      in quic_set_sk_addr (s1\<lparr>dst := path'\<rparr>) (addr path' (active path')) False
                    else s1)
             in Returns (Inr (length skb - (length skb - 8)), s2)))"

section \<open>The frame processor\<close>

text \<open>The \<open>frame_process\<close> column of \<open>quic_frame_ops\<close>, for an index up to 0x1E.\<close>

definition frame_process_op :: "u8 \<Rightarrow> sock \<Rightarrow> bytes \<Rightarrow> u8 \<Rightarrow> process_ret" where
  "frame_process_op t =
     (if t = 0x00 then quic_frame_padding_process
      else if t = 0x01 then quic_frame_ping_process
      else if t = 0x02 \<or> t = 0x03 then quic_frame_ack_process
      else if t = 0x04 then quic_frame_reset_stream_process
      else if t = 0x05 then quic_frame_stop_sending_process
      else if t = 0x06 then quic_frame_crypto_process
      else if t = 0x07 then quic_frame_new_token_process
      else if t \<le> 0x0F then quic_frame_stream_process
      else if t = 0x10 then quic_frame_max_data_process
      else if t = 0x11 then quic_frame_max_stream_data_process
      else if t = 0x12 then quic_frame_max_streams_bidi_process
      else if t = 0x13 then quic_frame_max_streams_uni_process
      else if t = 0x14 then quic_frame_data_blocked_process
      else if t = 0x15 then quic_frame_stream_data_blocked_process
      else if t = 0x16 then quic_frame_streams_blocked_bidi_process
      else if t = 0x17 then quic_frame_streams_blocked_uni_process
      else if t = 0x18 then quic_frame_new_connection_id_process
      else if t = 0x19 then quic_frame_retire_connection_id_process
      else if t = 0x1A then quic_frame_path_challenge_process
      else if t = 0x1B then quic_frame_path_response_process
      else if t = 0x1C \<or> t = 0x1D then quic_frame_connection_close_process
      else quic_frame_handshake_done_process)"

text \<open>
  The three classifiers \<open>quic_frame_ack_eliciting\<close>, \<open>quic_frame_ack_immediate\<close> and
  \<open>quic_frame_non_probing\<close> are macros of frame.h, which is not among the sources: the
  processor takes them as a parameter.
\<close>

record frame_classes =
  quic_frame_ack_eliciting :: "u8 \<Rightarrow> bool"
  quic_frame_ack_immediate :: "u8 \<Rightarrow> bool"
  quic_frame_non_probing :: "u8 \<Rightarrow> bool"

record quic_packet_info =
  ack_eliciting :: bool
  ack_immediate :: bool
  non_probing :: bool

text \<open>\<open>skb_pull\<close> leaves the buffer alone when asked for more than it holds.\<close>

definition skb_pull :: "bytes \<Rightarrow> nat \<Rightarrow> bytes" where
  "skb_pull skb n = (if n > length skb then skb else drop n skb)"

text \<open>
  The body of \<open>while (1)\<close>: the first component of the result is the return value, \<open>None\<close>
  for 0. Reading the type byte of an empty buffer would be a read at \<open>skb->len\<close>.
\<close>

function frame_loop ::
  "frame_classes \<Rightarrow> sock \<Rightarrow> bytes \<Rightarrow> quic_packet_info
     \<Rightarrow> (errno option \<times> sock \<times> quic_packet_info) run" where
  "frame_loop cls s skb pki =
     (case deref skb of
        None \<Rightarrow> Undefined
      | Some type \<Rightarrow>
          let skb1 = skb_pull skb 1
          in if type > QUIC_FRAME_BASE_MAX then Returns (Some EPROTONOSUPPORT, s, pki)
             else
               (case frame_process_op type s skb1 type of
                  Undefined \<Rightarrow> Undefined
                | Returns (Inl e, s1) \<Rightarrow> Returns (Some e, s1, pki)
                | Returns (Inr ret, s1) \<Rightarrow>
                    let pki1 = (if quic_frame_ack_eliciting cls type
                                then pki\<lparr>ack_eliciting := True,
                                        ack_immediate :=
                                          (ack_immediate pki \<or> quic_frame_ack_immediate cls type)\<rparr>
                                else pki);
                        pki2 = (if quic_frame_non_probing cls type
                                then pki1\<lparr>non_probing := True\<rparr> else pki1);
                        skb2 = skb_pull skb1 ret
                    in if length skb2 \<le> 0 then Returns (None, s1, pki2)
                       else frame_loop cls s1 skb2 pki2))"
  by pat_completeness auto
termination
proof (relation "measure (\<lambda>(cls, s, skb, pki). length skb)")
  show "wf (measure (\<lambda>(cls, s, skb, pki). length skb))" by simp
next
  fix cls :: frame_classes and s s1 :: sock and skb :: bytes and pki pki1 pki2 :: quic_packet_info
    and type :: u8 and skb1 skb2 :: bytes and ret :: nat
  assume "deref skb = Some type" and "skb1 = skb_pull skb 1" and "skb2 = skb_pull skb1 ret"
  then have "length skb2 < length skb"
    by (cases skb) (auto simp add: deref_def skb_pull_def)
  then show "((cls, s1, skb2, pki2), cls, s, skb, pki)
        \<in> measure (\<lambda>(cls, s, skb, pki). length skb)"
    by simp
qed

declare frame_loop.simps [simp del]

definition quic_frame_process ::
  "frame_classes \<Rightarrow> sock \<Rightarrow> bytes \<Rightarrow> quic_packet_info
     \<Rightarrow> (errno option \<times> sock \<times> quic_packet_info) run" where
  "quic_frame_process cls s skb pki =
     (if length skb = 0 then Returns (Some EINVAL, s, pki) else frame_loop cls s skb pki)"


section \<open>The ACK decoder in the words of the spec\<close>

text \<open>
  The words of the spec for the ACK decoder: the \<open>count\<close> further (gap, range) pairs as
  they stand in the payload, and the calls they cause, starting from the previous
  \<open>smallest\<close>: \<open>largest = smallest - gap - 2; smallest = largest - range;
  retransmit_check (largest, smallest, 0, 0)\<close>.
\<close>

primrec ack_pairs :: "bytes \<Rightarrow> nat \<Rightarrow> ((u64 \<times> u64) list \<times> bytes) option" where
  "ack_pairs p 0 = Some ([], p)"
| "ack_pairs p (Suc n) =
     (case quic_get_var p of
        None \<Rightarrow> None
      | Some (gap, p1) \<Rightarrow>
          (case quic_get_var p1 of
             None \<Rightarrow> None
           | Some (range', p2) \<Rightarrow>
               (case ack_pairs p2 n of
                  None \<Rightarrow> None
                | Some (prs, p3) \<Rightarrow> Some ((gap, range') # prs, p3))))"

fun ack_calls :: "u64 \<Rightarrow> (u64 \<times> u64) list \<Rightarrow> (u64 \<times> u64 \<times> u64 \<times> u64) list" where
  "ack_calls smallest [] = []"
| "ack_calls smallest ((gap, range') # prs) =
     (smallest - gap - 2, smallest - gap - 2 - range', 0, 0)
     # ack_calls (smallest - gap - 2 - range') prs"

text \<open>The socket after further calls of \<open>quic_outq_retransmit_check\<close>.\<close>

definition add_checks :: "sock \<Rightarrow> (u64 \<times> u64 \<times> u64 \<times> u64) list \<Rightarrow> sock" where
  "add_checks s cs = s\<lparr>outq := (outq s)\<lparr>retransmit_checks := retransmit_checks (outq s) @ cs\<rparr>\<rparr>"

text \<open>The three counts (ECT0, ECT1, CE) that end an ACK frame of type 0x03: what is left of the
  payload after them, \<open>None\<close> when one of them is missing.\<close>

definition ecn_counts :: "bytes \<Rightarrow> bytes option" where
  "ecn_counts p =
     (case quic_get_var p of
        None \<Rightarrow> None
      | Some (ect0, p1) \<Rightarrow>
          (case quic_get_var p1 of
             None \<Rightarrow> None
           | Some (ect1, p2) \<Rightarrow> map_option snd (quic_get_var p2)))"

section \<open>Retiring connection ids, in the words of the spec\<close>

text \<open>The \<open>k\<close> sequence numbers from \<open>first\<close> on.\<close>

fun seq_from :: "u64 \<Rightarrow> nat \<Rightarrow> u64 list" where
  "seq_from first 0 = []"
| "seq_from first (Suc k) = first # seq_from (first + 1) k"

text \<open>The RETIRE_CONNECTION_ID frame for a sequence number, as \<open>quic_frame_create\<close>
  returns it, and the socket after retiring a list of numbers: each is removed from the
  destination set and its frame is put at the tail of the control queue.\<close>

definition retire_frame :: "u64 \<Rightarrow> sk_buff" where
  "retire_frame n = (new_skb (QUIC_FRAME_RETIRE_CONNECTION_ID # quic_put_var n))
                      \<lparr>cb_frame_type := QUIC_FRAME_RETIRE_CONNECTION_ID\<rparr>"

fun retire_list :: "sock \<Rightarrow> u64 list \<Rightarrow> sock" where
  "retire_list s [] = s"
| "retire_list s (n # ns) =
     retire_list
       (quic_outq_ctrl_tail (s\<lparr>dest := quic_connection_id_remove (dest s) n\<rparr>)
          (retire_frame n) True) ns"

section \<open>Frames as \<open>quic_frame_create\<close> returns them\<close>









section \<open>Example states\<close>

text \<open>
  A client socket with one connection id on each side, one stream (id 4, nothing sent, 40 of
  100 bytes received with a window of 60), packet number 7 alone in the packet-number map,
  and every allocation succeeding. The theorems below are instantiated on it.
\<close>

definition stream0 :: quic_stream where
  "stream0 = \<lparr>send_offset = 0, send_max_bytes = 1000, send_data_blocked = False,
     send_st = QUIC_STREAM_SEND_STATE_READY, recv_max_bytes = 100, recv_bytes = 40,
     recv_window = 60, recv_st = QUIC_STREAM_RECV_STATE_RECV\<rparr>"

definition path0 :: quic_path_addr where
  "path0 = \<lparr>entropy = [0, 0, 0, 0, 0, 0, 0, 0], pending = False, active = False,
     addr = (\<lambda>i. [])\<rparr>"

definition sock0 :: sock where
  "sock0 =
     \<lparr>source = \<lparr>cid_entries = [\<lparr>cid_number = 0, cid_bytes = [1, 2, 3, 4]\<rparr>], max_count = 8\<rparr>,
      dest = \<lparr>cid_entries = [\<lparr>cid_number = 0, cid_bytes = [5, 6, 7, 8]\<rparr>], max_count = 8\<rparr>,
      outq = \<lparr>close_errcode = 10, close_frame = 0, close_phrase = None, outq_max_bytes = 1000,
              outq_data_blocked = False, ack_delay_exponent = 3, ctrl_queue = [],
              retransmit_checks = []\<rparr>,
      inq = \<lparr>inq_max_bytes = 500, inq_bytes = 40, inq_window = 60, reasm_queue = [],
             reasm_err = None\<rparr>,
      streams = \<lparr>strm = [4 \<mapsto> stream0], send_stream_active = 4, send_max_streams_uni = 0,
                 send_max_streams_bidi = 0, send_streams_uni = 0, send_streams_bidi = 0,
                 recv_max_streams_uni = 0, recv_max_streams_bidi = 0\<rparr>,
      pnmap = \<lparr>max_pn_seen = 7, min_pn_seen = 7, max_pn_ts = 1000, base_pn = 7, pn_gabs = []\<rparr>,
      token = \<lparr>tk_data = [9, 9], tk_len = 2\<rparr>,
      ticket = \<lparr>tk_data = [4, 8], tk_len = 2\<rparr>,
      src = path0, dst = path0, udp_sk = (\<lambda>i. None), udp_sock_puts = [],
      sk_local_addr = [], sk_peer_addr = [], addr_len = 0, is_serv = False,
      packet_max_payload = 1200, sk_err = 0, sk_state = QUIC_STATE_OTHER 0,
      sk_state_changes = 0, sk_write_spaces = 0, allocs = [], rng = (\<lambda>i. of_nat i),
      rng_pos = 0, uninit = (\<lambda>i. 0xAA), jiffies_usecs = 1004, get_err = None\<rparr>"


text \<open>The same socket with a window of 70 on stream 4, so that its receive limit of 100
  is not \<open>bytes + window\<close>.\<close>

definition sock1 :: sock where
  "sock1 = sock0\<lparr>streams := (streams sock0)\<lparr>strm := [4 \<mapsto> stream0\<lparr>recv_window := 70\<rparr>]\<rparr>\<rparr>"

text \<open>The same socket with stream 64 in place of stream 4, its window \<open>2 ^ 30\<close>: the
  stream id takes two bytes as a variable-length integer, \<open>bytes + window\<close> eight.\<close>

definition sock5 :: sock where
  "sock5 = sock0\<lparr>streams := (streams sock0)
             \<lparr>strm := [64 \<mapsto> stream0\<lparr>recv_window := 1073741824\<rparr>]\<rparr>\<rparr>"









section \<open>Variable-length integers: encoding and decoding agree\<close>

lemma tag_strip:
  assumes "(x :: u8) < 64" and "c < 4"
  shows "(x OR push_bit 6 c) AND mask 6 = x \<and> drop_bit 6 (x OR push_bit 6 c) = c"
proof -
  from assms have x: "take_bit 6 x = x" and c: "take_bit 2 c = c"
    by (simp_all add: take_bit_eq_mask less_mask_eq)
  have "(take_bit 6 x OR push_bit 6 (take_bit 2 c)) AND mask 6 = take_bit 6 x"
    by (rule bit_eqI) (auto simp add: bit_simps)
  moreover have "drop_bit 6 (take_bit 6 x OR push_bit 6 (take_bit 2 c)) = take_bit 2 c"
    by (rule bit_eqI) (auto simp add: bit_simps)
  ultimately show ?thesis
    using x c by simp
qed

lemma foldl_be_bytes:
  "foldl (\<lambda>a b. push_bit 8 a OR ucast b) a (be_bytes k v)
     = push_bit (8 * k) a OR take_bit (8 * k) v"
proof (induction k arbitrary: a)
  case 0
  show ?case by simp
next
  case (Suc k)
  have "push_bit (8 * k) (push_bit 8 a OR ucast (ucast (drop_bit (8 * k) v) :: u8))
          OR take_bit (8 * k) v
        = push_bit (8 * Suc k) a OR take_bit (8 * Suc k) v"
    by (rule bit_eqI) (auto simp add: bit_simps ac_simps)
  with Suc show ?case by simp
qed

lemma be_val_be_bytes: "be_val (be_bytes k v) = take_bit (8 * k) v"
  by (simp add: be_val_def foldl_be_bytes)

lemma length_be_bytes: "length (be_bytes k n) = k"
  by (induction k) simp_all

lemma top_byte_small:
  assumes "(n :: u64) < 2 ^ (8 * k + 6)"
  shows "(ucast (drop_bit (8 * k) n) :: u8) < 64"
proof -
  let ?x = "ucast (drop_bit (8 * k) n) :: u8"
  from assms have n: "take_bit (8 * k + 6) n = n"
    by (simp add: take_bit_eq_mask less_mask_eq)
  have "(ucast (drop_bit (8 * k) (take_bit (8 * k + 6) n)) :: u8) AND mask 6
        = ucast (drop_bit (8 * k) (take_bit (8 * k + 6) n))"
    by (rule bit_eqI) (auto simp add: bit_simps)
  then have e: "?x AND mask 6 = ?x"
    by (simp only: n)
  have "?x AND mask 6 < 2 ^ 6"
    by (rule and_mask_less_size) (simp add: word_size)
  then show ?thesis
    by (simp only: e) simp
qed

lemma get_var_tagged:
  assumes "(n :: u64) < 2 ^ (8 * k + 6)" and "c < 4" and "2 ^ unat c = Suc k"
  shows "quic_get_var (((ucast (drop_bit (8 * k) n) :: u8) OR push_bit 6 c) # be_bytes k n @ r)
         = Some (n, r)"
proof -
  let ?x = "ucast (drop_bit (8 * k) n) :: u8"
  have x: "?x < 64"
    using assms(1) by (rule top_byte_small)
  have m: "(0x3F :: u8) = mask 6"
    by (simp add: mask_eq_exp_minus_1)
  have t: "(?x OR push_bit 6 c) AND 0x3F = ?x" "drop_bit 6 (?x OR push_bit 6 c) = c"
    using tag_strip [OF x assms(2)] unfolding m by simp_all
  have n6: "take_bit (8 * k + 6) n = n"
    using assms(1) by (simp add: take_bit_eq_mask less_mask_eq)
  have "take_bit (8 * Suc k) (take_bit (8 * k + 6) n) = take_bit (8 * k + 6) n"
    by (simp add: min_def)
  then have n: "take_bit (8 * Suc k) n = n"
    by (simp only: n6)
  have "be_val (?x # be_bytes k n) = n"
    using be_val_be_bytes [of "Suc k" n] n by simp
  then show ?thesis
    unfolding quic_get_var_def list.case Let_def t assms(3)
    by (simp add: length_be_bytes)
qed

lemma be_bytes_unfold:
  "be_bytes 1 n = [ucast n]"
  "be_bytes 3 n = [ucast (drop_bit 16 n), ucast (drop_bit 8 n), ucast n]"
  "be_bytes 7 n = [ucast (drop_bit 48 n), ucast (drop_bit 40 n), ucast (drop_bit 32 n),
     ucast (drop_bit 24 n), ucast (drop_bit 16 n), ucast (drop_bit 8 n), ucast n]"
  by (simp_all add: eval_nat_numeral)

lemma quic_get_put_var:
  assumes a: "n < 2 ^ 62"
  shows "quic_get_var (quic_put_var n @ r) = Some (n, r)"
proof -
  consider "n < 64" | "\<not> n < 64" "n < 16384"
    | "\<not> n < 64" "\<not> n < 16384" "n < 1073741824"
    | "\<not> n < 64" "\<not> n < 16384" "\<not> n < 1073741824"
    by blast
  then show ?thesis
  proof cases
    case 1
    then have "quic_get_var ((ucast (drop_bit (8 * 0) n) OR push_bit 6 0) # be_bytes 0 n @ r)
               = Some (n, r)"
      by (intro get_var_tagged) simp_all
    with 1 show ?thesis by (simp add: quic_put_var_def)
  next
    case 2
    then have "quic_get_var ((ucast (drop_bit (8 * 1) n) OR push_bit 6 1) # be_bytes 1 n @ r)
               = Some (n, r)"
      by (intro get_var_tagged) simp_all
    with 2 show ?thesis by (simp add: quic_put_var_def be_bytes_unfold)
  next
    case 3
    then have "quic_get_var ((ucast (drop_bit (8 * 3) n) OR push_bit 6 2) # be_bytes 3 n @ r)
               = Some (n, r)"
      by (intro get_var_tagged) simp_all
    with 3 show ?thesis by (simp add: quic_put_var_def be_bytes_unfold)
  next
    case 4
    from a have "quic_get_var ((ucast (drop_bit (8 * 7) n) OR push_bit 6 3) # be_bytes 7 n @ r)
                 = Some (n, r)"
      by (intro get_var_tagged) simp_all
    with 4 show ?thesis by (simp add: quic_put_var_def be_bytes_unfold)
  qed
qed

lemma length_put_var: "length (quic_put_var n) = quic_var_len n"
  by (simp add: quic_put_var_def quic_var_len_def)

lemma quic_var_len_le: "quic_var_len n \<le> 8"
  by (simp add: quic_var_len_def)

lemma put_var_small: "n < 64 \<Longrightarrow> quic_put_var n = [ucast n]"
  by (simp add: quic_put_var_def)


lemma ucast_u8_u64: "ucast (ucast (t :: u8) :: u64) = t" "unat (ucast t :: u64) = unat t"
proof -
  show "ucast (ucast (t :: u8) :: u64) = t"
    by (rule ucast_up_ucast_id) (simp add: is_up)
  have "unat t < 2 ^ 8"
    using unsigned_less [of t] by simp
  then have "unat t < 2 ^ 64"
    by simp
  then show "unat (ucast t :: u64) = unat t"
    by (simp add: unsigned_ucast_eq take_bit_nat_eq_self)
qed

lemma get_var_byte: "b < 64 \<Longrightarrow> quic_get_var (b # r) = Some (ucast b, r)"
proof -
  assume "b < 64"
  then have s: "(ucast b :: u64) < 64"
    by (simp add: word_less_nat_alt ucast_u8_u64)
  then have "(ucast b :: u64) < 2 ^ 62"
    by (simp add: word_less_nat_alt)
  from quic_get_put_var [OF this, of r] s show ?thesis
    by (simp add: put_var_small ucast_u8_u64)
qed

lemma get_var_nil: "quic_get_var [] = None"
  by (simp add: quic_get_var_def)

section \<open>Shared facts about the collaborators\<close>

lemma scratch_one_var: "scratch 10 (t # quic_put_var x) = Returns (t # quic_put_var x)"
  using quic_var_len_le [of x] by (simp add: scratch_def length_put_var)

lemma scratch_two_var:
  "quic_var_len x + quic_var_len y \<le> 9
   \<Longrightarrow> scratch 10 (t # quic_put_var x @ quic_put_var y)
       = Returns (t # quic_put_var x @ quic_put_var y)"
  by (simp add: scratch_def length_put_var)

lemma alloc_keeps:
  "alloc s = (b, s1) \<Longrightarrow> token s1 = token s \<and> ticket s1 = ticket s \<and> inq s1 = inq s
     \<and> outq s1 = outq s \<and> streams s1 = streams s \<and> source s1 = source s \<and> dest s1 = dest s"
  by (auto simp add: alloc_def split: list.splits)

lemma stream_upd_same:
  "strm (streams s) sid = Some st \<Longrightarrow> f st = st \<Longrightarrow> stream_upd s sid f = s"
  by (simp add: stream_upd_def stream_put_def map_upd_triv)

lemmas create_defs = quic_frame_create_def frame_create_op_def skb_of_scratch_def new_skb_def

section \<open>Unsupported frame types on the send side\<close>

text \<open>
  C9. For every type byte above 0x1E, \<open>quic_frame_create\<close> returns NULL and leaves the
  socket as it was: no encoder runs.
\<close>

theorem quic_frame_create_unsupported:
  "type > QUIC_FRAME_BASE_MAX \<Longrightarrow> quic_frame_create s type d = Returns (None, s)"
  by (simp add: quic_frame_create_def)

theorem quic_frame_create_unsupported_witness:
  "(0x1F :: u8) > QUIC_FRAME_BASE_MAX
   \<and> quic_frame_create sock0 0x1F (D_u64 0) = Returns (None, sock0)"
  using quic_frame_create_unsupported [of "0x1F" sock0 "D_u64 0"] by simp

section \<open>NEW_TOKEN and CRYPTO: the stored value under allocation failure\<close>

text \<open>
  C10. For a NEW_TOKEN frame whose length field fits the payload, and for a CRYPTO frame with
  offset 0, a fitting length and the marker byte 4: when \<open>kmemdup\<close> fails the decoder
  returns \<open>-ENOMEM\<close> and the stored token (session ticket) is the one stored before; when
  it succeeds the stored value is the copy of the \<open>length\<close> payload bytes. The socket
  returned on failure is the one the failed allocation left.
\<close>

theorem token_kept_on_nomem:
  "(quic_get_var skb = Some (n, p) \<and> unat n \<le> length p
      \<longrightarrow> (alloc s = (False, s1)
            \<longrightarrow> quic_frame_new_token_process s skb type = Returns (Inl ENOMEM, s1)
                \<and> token s1 = token s)
        \<and> (alloc t = (True, t1)
            \<longrightarrow> quic_frame_new_token_process t skb type =
                  Returns (Inr (length skb - (length p - unat n)),
                           t1\<lparr>token := \<lparr>tk_data = take (unat n) p, tk_len = ucast n\<rparr>\<rparr>)))
   \<and> (quic_get_var skb' = Some (0, q1) \<and> quic_get_var q1 = Some (m, 4 # q)
        \<and> unat m \<le> length (4 # q)
      \<longrightarrow> (alloc s' = (False, s1')
            \<longrightarrow> quic_frame_crypto_process s' skb' type' = Returns (Inl ENOMEM, s1')
                \<and> ticket s1' = ticket s')
        \<and> (alloc t' = (True, t1')
            \<longrightarrow> quic_frame_crypto_process t' skb' type' =
                  Returns (Inr (length skb' - (length (4 # q) - unat m)),
                           t1'\<lparr>ticket := \<lparr>tk_data = take (unat m) (4 # q), tk_len = ucast m\<rparr>\<rparr>)))"
  by (auto simp add: quic_frame_new_token_process_def quic_frame_crypto_process_def
      mem_read_def deref_def dest: alloc_keeps)

theorem token_kept_on_nomem_witness:
  "quic_frame_new_token_process (sock0\<lparr>allocs := [False]\<rparr>) [2, 7, 7] QUIC_FRAME_NEW_TOKEN
     = Returns (Inl ENOMEM, sock0\<lparr>allocs := []\<rparr>)
   \<and> token (sock0\<lparr>allocs := []\<rparr>) = token (sock0\<lparr>allocs := [False]\<rparr>)
   \<and> quic_frame_new_token_process sock0 [2, 7, 7] QUIC_FRAME_NEW_TOKEN
     = Returns (Inr 3, sock0\<lparr>token := \<lparr>tk_data = [7, 7], tk_len = 2\<rparr>\<rparr>)
   \<and> quic_frame_crypto_process (sock0\<lparr>allocs := [False]\<rparr>) [0, 2, 4, 7] QUIC_FRAME_CRYPTO
     = Returns (Inl ENOMEM, sock0\<lparr>allocs := []\<rparr>)
   \<and> ticket (sock0\<lparr>allocs := []\<rparr>) = ticket (sock0\<lparr>allocs := [False]\<rparr>)
   \<and> quic_frame_crypto_process sock0 [0, 2, 4, 7] QUIC_FRAME_CRYPTO
     = Returns (Inr 4, sock0\<lparr>ticket := \<lparr>tk_data = [4, 7], tk_len = 2\<rparr>\<rparr>)"
  using token_kept_on_nomem [of "[2, 7, 7]" 2 "[7, 7]" "sock0\<lparr>allocs := [False]\<rparr>"
      "sock0\<lparr>allocs := []\<rparr>" QUIC_FRAME_NEW_TOKEN sock0 sock0
      "[0, 2, 4, 7]" "[2, 4, 7]" 2 "[7]" "sock0\<lparr>allocs := [False]\<rparr>"
      "sock0\<lparr>allocs := []\<rparr>" QUIC_FRAME_CRYPTO sock0 sock0]
  by (simp add: get_var_byte alloc_def sock0_def)

section \<open>DATA_BLOCKED and STREAM_DATA_BLOCKED\<close>

lemma data_blocked_process_cases:
  "quic_get_var skb = Some (max_bytes, p)
   \<longrightarrow> (alloc s = (False, s1)
        \<longrightarrow> quic_frame_data_blocked_process s skb type = Returns (Inl ENOMEM, s1)
            \<and> inq s1 = inq s \<and> outq s1 = outq s)
     \<and> (alloc t = (True, t1)
        \<longrightarrow> quic_frame_data_blocked_process t skb type =
            Returns (Inr (length skb - length p),
              quic_outq_ctrl_tail
                (t1\<lparr>inq := (inq t)\<lparr>inq_max_bytes := inq_bytes (inq t) + inq_window (inq t)\<rparr>\<rparr>)
                ((new_skb (QUIC_FRAME_MAX_DATA
                    # quic_put_var (inq_bytes (inq t) + inq_window (inq t))))
                   \<lparr>cb_frame_type := QUIC_FRAME_MAX_DATA\<rparr>) True))"
  by (auto simp add: quic_frame_data_blocked_process_def create_defs
      quic_frame_max_data_create_def alloc_def Let_def put_var_small scratch_one_var
      quic_outq_ctrl_tail_def
      split: list.splits intro!: sock.equality)

lemma stream_data_blocked_process_cases:
  "quic_get_var skb = Some (stream_id, p1) \<and> quic_get_var p1 = Some (max_bytes, p)
   \<and> strm (streams s) stream_id = Some st
   \<longrightarrow>
   (recv_max_bytes st = recv_bytes st + recv_window st
      \<longrightarrow> quic_frame_stream_data_blocked_process s skb type
            = Returns (Inr (length skb - length p), s))
   \<and> (recv_max_bytes st \<noteq> recv_bytes st + recv_window st
       \<and> quic_var_len stream_id + quic_var_len (recv_bytes st + recv_window st) \<le> 9
      \<longrightarrow> (alloc s = (False, s1)
            \<longrightarrow> quic_frame_stream_data_blocked_process s skb type = Returns (Inl ENOMEM, s1)
                \<and> streams s1 = streams s \<and> outq s1 = outq s)
        \<and> (alloc s = (True, s1)
            \<longrightarrow> quic_frame_stream_data_blocked_process s skb type =
                Returns (Inr (length skb - length p),
                  quic_outq_ctrl_tail
                    (stream_put s1 stream_id
                       (st\<lparr>recv_max_bytes := recv_bytes st + recv_window st\<rparr>))
                    ((new_skb (QUIC_FRAME_MAX_STREAM_DATA # quic_put_var stream_id
                        @ quic_put_var (recv_bytes st + recv_window st)))
                       \<lparr>cb_frame_type := QUIC_FRAME_MAX_STREAM_DATA\<rparr>) True)))"
  apply (intro conjI impI)
    apply (clarsimp simp add: quic_frame_stream_data_blocked_process_def quic_stream_find_def
      Let_def stream_upd_same)
   apply (auto simp add: quic_frame_stream_data_blocked_process_def quic_stream_find_def
      create_defs quic_frame_max_stream_data_create_def alloc_def Let_def put_var_small
      scratch_two_var stream_upd_def stream_put_def quic_outq_ctrl_tail_def map_upd_triv
      split: list.splits intro!: sock.equality)
  done

lemma get_var_64: "quic_get_var (0x40 # 0x40 # r) = Some (64, r)"
  by (simp add: quic_get_var_def be_val_def drop_bit_eq_div unat_div)

lemma var_len_64: "quic_var_len 64 = 2" "quic_var_len 1073741864 = 8"
  by (simp_all add: quic_var_len_def word_less_nat_alt)

text \<open>
  C8, as the claim states it, fails for STREAM_DATA_BLOCKED in two ways. By the guard
  \<open>recv_max_bytes != stream->recv.max_bytes\<close>: on a stream whose receive limit already is
  \<open>bytes + window\<close> (stream 4 of the example socket: 100 = 40 + 60) the decoder accepts
  the frame and emits no MAX_STREAM_DATA. And by a buffer that is too small: for stream 64
  with a window of \<open>2 ^ 30\<close> the frame 15 40 40 00 makes the decoder build a
  MAX_STREAM_DATA frame of 1 + 2 + 8 bytes in the 10 bytes of \<open>frame[10]\<close>, and no frame
  is emitted by a defined run.
\<close>

theorem stream_data_blocked_emits_nothing:
  "quic_frame_stream_data_blocked_process sock0 [4, 0] QUIC_FRAME_STREAM_DATA_BLOCKED
     = Returns (Inr 2, sock0)
   \<and> ctrl_queue (outq sock0) = []
   \<and> quic_frame_stream_data_blocked_process sock5 [0x40, 0x40, 0x00]
         QUIC_FRAME_STREAM_DATA_BLOCKED
     = Undefined"
proof -
  have "quic_frame_stream_data_blocked_process sock0 [4, 0] QUIC_FRAME_STREAM_DATA_BLOCKED
          = Returns (Inr 2, sock0)
        \<and> ctrl_queue (outq sock0) = []"
    using stream_data_blocked_process_cases [of "[4, 0]" 4 "[0]" 0 "[]" sock0 stream0]
    by (simp add: get_var_byte sock0_def stream0_def)
  moreover have "quic_frame_stream_data_blocked_process sock5 [0x40, 0x40, 0x00]
                   QUIC_FRAME_STREAM_DATA_BLOCKED = Undefined"
    by (simp add: quic_frame_stream_data_blocked_process_def get_var_byte get_var_64
        quic_stream_find_def sock5_def sock0_def stream0_def Let_def stream_upd_def
        quic_frame_create_def frame_create_op_def quic_frame_max_stream_data_create_def
        skb_of_scratch_def scratch_def length_put_var var_len_64 put_var_small
        stream_put_def)
  ultimately show ?thesis
    by blast
qed

text \<open>
  C8, amended. A DATA_BLOCKED frame sets \<open>inq.max_bytes\<close> to \<open>bytes + window\<close> and queues
  a MAX_DATA frame carrying it; when creating that frame fails the decoder returns
  \<open>-ENOMEM\<close> and the limit is the old one again. A STREAM_DATA_BLOCKED frame for a known
  stream whose limit already is \<open>bytes + window\<close> changes nothing and queues nothing;
  otherwise (with a MAX_STREAM_DATA frame that fits the encoder's 10-byte scratch array) it
  sets the stream's limit, queues a MAX_STREAM_DATA frame, and on a failed creation returns
  \<open>-ENOMEM\<close> with the old limit. On \<open>-ENOMEM\<close> the socket is the one the failed
  allocation left.
\<close>

theorem blocked_limit_rollback:
  "(quic_get_var skb = Some (max_bytes, p)
   \<longrightarrow> (alloc s = (False, s1)
        \<longrightarrow> quic_frame_data_blocked_process s skb type = Returns (Inl ENOMEM, s1)
            \<and> inq s1 = inq s \<and> outq s1 = outq s)
     \<and> (alloc t = (True, t1)
        \<longrightarrow> quic_frame_data_blocked_process t skb type =
            Returns (Inr (length skb - length p),
              quic_outq_ctrl_tail
                (t1\<lparr>inq := (inq t)\<lparr>inq_max_bytes := inq_bytes (inq t) + inq_window (inq t)\<rparr>\<rparr>)
                ((new_skb (QUIC_FRAME_MAX_DATA
                    # quic_put_var (inq_bytes (inq t) + inq_window (inq t))))
                   \<lparr>cb_frame_type := QUIC_FRAME_MAX_DATA\<rparr>) True)))
   \<and> (quic_get_var skb' = Some (stream_id, p1') \<and> quic_get_var p1' = Some (max_bytes', p')
       \<and> strm (streams s') stream_id = Some st
   \<longrightarrow>
   (recv_max_bytes st = recv_bytes st + recv_window st
      \<longrightarrow> quic_frame_stream_data_blocked_process s' skb' type'
            = Returns (Inr (length skb' - length p'), s'))
   \<and> (recv_max_bytes st \<noteq> recv_bytes st + recv_window st
       \<and> quic_var_len stream_id + quic_var_len (recv_bytes st + recv_window st) \<le> 9
      \<longrightarrow> (alloc s' = (False, s1')
            \<longrightarrow> quic_frame_stream_data_blocked_process s' skb' type' = Returns (Inl ENOMEM, s1')
                \<and> streams s1' = streams s' \<and> outq s1' = outq s')
        \<and> (alloc s' = (True, s1')
            \<longrightarrow> quic_frame_stream_data_blocked_process s' skb' type' =
                Returns (Inr (length skb' - length p'),
                  quic_outq_ctrl_tail
                    (stream_put s1' stream_id
                       (st\<lparr>recv_max_bytes := recv_bytes st + recv_window st\<rparr>))
                    ((new_skb (QUIC_FRAME_MAX_STREAM_DATA # quic_put_var stream_id
                        @ quic_put_var (recv_bytes st + recv_window st)))
                       \<lparr>cb_frame_type := QUIC_FRAME_MAX_STREAM_DATA\<rparr>) True))))"
  using data_blocked_process_cases [of skb max_bytes p s s1 type t t1]
    stream_data_blocked_process_cases [of skb' stream_id p1' max_bytes' p' s' st type' s1']
  by blast

theorem blocked_limit_rollback_witness:
  "quic_frame_data_blocked_process (sock0\<lparr>allocs := [False]\<rparr>) [0] QUIC_FRAME_DATA_BLOCKED
     = Returns (Inl ENOMEM, sock0\<lparr>allocs := []\<rparr>)
   \<and> inq (sock0\<lparr>allocs := []\<rparr>) = inq (sock0\<lparr>allocs := [False]\<rparr>)
   \<and> quic_frame_data_blocked_process sock0 [0] QUIC_FRAME_DATA_BLOCKED
     = Returns (Inr 1,
         quic_outq_ctrl_tail (sock0\<lparr>inq := (inq sock0)\<lparr>inq_max_bytes := 100\<rparr>\<rparr>)
           ((new_skb (QUIC_FRAME_MAX_DATA # quic_put_var 100))
              \<lparr>cb_frame_type := QUIC_FRAME_MAX_DATA\<rparr>) True)
   \<and> quic_frame_stream_data_blocked_process sock0 [4, 0] QUIC_FRAME_STREAM_DATA_BLOCKED
     = Returns (Inr 2, sock0)
   \<and> quic_frame_stream_data_blocked_process (sock1\<lparr>allocs := [False]\<rparr>) [4, 0]
       QUIC_FRAME_STREAM_DATA_BLOCKED
     = Returns (Inl ENOMEM, sock1\<lparr>allocs := []\<rparr>)
   \<and> streams (sock1\<lparr>allocs := []\<rparr>) = streams (sock1\<lparr>allocs := [False]\<rparr>)
   \<and> quic_frame_stream_data_blocked_process sock1 [4, 0] QUIC_FRAME_STREAM_DATA_BLOCKED
     = Returns (Inr 2,
         quic_outq_ctrl_tail
           (stream_put sock1 4 (stream0\<lparr>recv_window := 70, recv_max_bytes := 110\<rparr>))
           ((new_skb (QUIC_FRAME_MAX_STREAM_DATA # quic_put_var 4 @ quic_put_var 110))
              \<lparr>cb_frame_type := QUIC_FRAME_MAX_STREAM_DATA\<rparr>) True)"
  using blocked_limit_rollback [of "[0]" 0 "[]" "sock0\<lparr>allocs := [False]\<rparr>"
      "sock0\<lparr>allocs := []\<rparr>" QUIC_FRAME_DATA_BLOCKED sock0 sock0
      "[4, 0]" 4 "[0]" 0 "[]" sock0 stream0 QUIC_FRAME_STREAM_DATA_BLOCKED sock0]
    blocked_limit_rollback [of "[0]" 0 "[]" "sock0\<lparr>allocs := [False]\<rparr>"
      "sock0\<lparr>allocs := []\<rparr>" QUIC_FRAME_DATA_BLOCKED sock0 sock0
      "[4, 0]" 4 "[0]" 0 "[]" "sock1\<lparr>allocs := [False]\<rparr>" "stream0\<lparr>recv_window := 70\<rparr>"
      QUIC_FRAME_STREAM_DATA_BLOCKED "sock1\<lparr>allocs := []\<rparr>"]
    blocked_limit_rollback [of "[0]" 0 "[]" "sock0\<lparr>allocs := [False]\<rparr>"
      "sock0\<lparr>allocs := []\<rparr>" QUIC_FRAME_DATA_BLOCKED sock0 sock0
      "[4, 0]" 4 "[0]" 0 "[]" sock1 "stream0\<lparr>recv_window := 70\<rparr>"
      QUIC_FRAME_STREAM_DATA_BLOCKED sock1]
  by (simp add: get_var_byte alloc_def sock0_def sock1_def stream0_def quic_var_len_def)

section \<open>CONNECTION_CLOSE\<close>

lemma deref_drop: "i < length p \<Longrightarrow> deref (drop i p) = Some (p ! i)"
  by (simp add: deref_def Cons_nth_drop_Suc [symmetric])

lemma strcpy_read_nul: "i < length p \<Longrightarrow> p ! i = 0 \<Longrightarrow> strcpy_read p \<noteq> None"
  by (auto simp add: strcpy_read_def in_set_conv_nth)

text \<open>
  C5, as the claim states it, fails in one place: the value stored in \<open>sk->sk_err\<close> is
  \<open>-EPIPE\<close>, not \<open>EPIPE\<close>. On the application close frame 0x1D with error code 10 and
  an empty phrase:
\<close>

theorem connection_close_sk_err_negative:
  "quic_frame_connection_close_process sock0 [10, 0] QUIC_FRAME_CONNECTION_CLOSE_APP
     = Returns (Inr 2, sock0\<lparr>sk_err := - 32, sk_state := QUIC_STATE_USER_CLOSED,
                            sk_state_changes := 1\<rparr>)
   \<and> EPIPE = 32"
  by (simp add: quic_frame_connection_close_process_def get_var_byte EPIPE_def
      quic_set_state_def sk_state_change_def sock0_def)

lemma connection_close_process_cases:
  "quic_get_var skb = Some (err_code, p1)
   \<and> (if type = QUIC_FRAME_CONNECTION_CLOSE then quic_get_var p1 else Some (0, p1))
       = Some (ftype, p2)
   \<and> quic_get_var p2 = Some (phrase_len, p)
   \<longrightarrow>
   (phrase_len \<noteq> 0
      \<and> (phrase_len > 80 \<or> unat phrase_len > length p \<or> p ! (unat phrase_len - 1) \<noteq> 0)
      \<longrightarrow> quic_frame_connection_close_process s skb type = Returns (Inl EINVAL, s))
   \<and> (unat phrase_len \<le> length p
      \<and> (phrase_len = 0 \<or> phrase_len \<le> 80 \<and> p ! (unat phrase_len - 1) = 0)
      \<longrightarrow> quic_frame_connection_close_process s skb type =
            Returns (Inr (length skb - (length p - unat phrase_len)),
                     s\<lparr>sk_err := - EPIPE, sk_state := QUIC_STATE_USER_CLOSED,
                       sk_state_changes := Suc (sk_state_changes s)\<rparr>))"
proof (intro impI conjI; elim conjE)
  assume a: "quic_get_var skb = Some (err_code, p1)"
    "(if type = QUIC_FRAME_CONNECTION_CLOSE then quic_get_var p1 else Some (0, p1))
       = Some (ftype, p2)"
    "quic_get_var p2 = Some (phrase_len, p)"
  {
    assume nz: "phrase_len \<noteq> 0"
      and bad: "phrase_len > 80 \<or> unat phrase_len > length p \<or> p ! (unat phrase_len - 1) \<noteq> 0"
    from nz have pos: "0 < unat phrase_len"
      by (simp add: unat_gt_0)
    show "quic_frame_connection_close_process s skb type = Returns (Inl EINVAL, s)"
    proof (cases "phrase_len > 80 \<or> unat phrase_len > length p")
      case True
      with a nz show ?thesis
        by (auto simp add: quic_frame_connection_close_process_def Let_def)
    next
      case False
      with bad have b: "p ! (unat phrase_len - 1) \<noteq> 0" by blast
      from False pos have "unat phrase_len - 1 < length p" by arith
      then have "deref (drop (unat phrase_len - 1) p) = Some (p ! (unat phrase_len - 1))"
        by (rule deref_drop)
      with a nz b False show ?thesis
        by (simp add: quic_frame_connection_close_process_def Let_def)
    qed
  }
  {
    assume fit: "unat phrase_len \<le> length p"
      and ok: "phrase_len = 0 \<or> phrase_len \<le> 80 \<and> p ! (unat phrase_len - 1) = 0"
    show "quic_frame_connection_close_process s skb type =
            Returns (Inr (length skb - (length p - unat phrase_len)),
                     s\<lparr>sk_err := - EPIPE, sk_state := QUIC_STATE_USER_CLOSED,
                       sk_state_changes := Suc (sk_state_changes s)\<rparr>)"
    proof (cases "phrase_len = 0")
      case True
      with a show ?thesis
        by (simp add: quic_frame_connection_close_process_def Let_def quic_set_state_def
            sk_state_change_def)
    next
      case False
      with ok have le: "phrase_len \<le> 80" and z: "p ! (unat phrase_len - 1) = 0" by simp_all
      from False have "0 < unat phrase_len" by (simp add: unat_gt_0)
      with fit have i: "unat phrase_len - 1 < length p" by arith
      from i have d: "deref (drop (unat phrase_len - 1) p) = Some (p ! (unat phrase_len - 1))"
        by (rule deref_drop)
      from i z have "strcpy_read p \<noteq> None" by (rule strcpy_read_nul)
      then obtain ph where "strcpy_read p = Some ph" by blast
      with a False le z d fit show ?thesis
        by (simp add: quic_frame_connection_close_process_def Let_def quic_set_state_def
            sk_state_change_def not_less [symmetric])
    qed
  }
qed

text \<open>
  C5, amended. After the error code, the frame type (for 0x1C only) and the phrase length
  have been read: a non-empty phrase is rejected with \<open>-EINVAL\<close>, the socket untouched,
  when its length exceeds 80 or the bytes that remain, or when its last byte is not NUL; a
  frame with an empty phrase, or with a phrase of at most 80 bytes that fits and ends in NUL,
  sets \<open>sk_err\<close> to \<open>-EPIPE\<close>, moves the socket to \<open>QUIC_STATE_USER_CLOSED\<close> and
  calls \<open>sk_state_change\<close> once.
\<close>

theorem connection_close_process_spec:
  "quic_get_var skb = Some (err_code, p1)
   \<and> (if type = QUIC_FRAME_CONNECTION_CLOSE then quic_get_var p1 else Some (0, p1))
       = Some (ftype, p2)
   \<and> quic_get_var p2 = Some (phrase_len, p)
   \<longrightarrow>
   (phrase_len \<noteq> 0
      \<and> (phrase_len > 80 \<or> unat phrase_len > length p \<or> p ! (unat phrase_len - 1) \<noteq> 0)
      \<longrightarrow> quic_frame_connection_close_process s skb type = Returns (Inl EINVAL, s))
   \<and> (unat phrase_len \<le> length p
      \<and> (phrase_len = 0 \<or> phrase_len \<le> 80 \<and> p ! (unat phrase_len - 1) = 0)
      \<longrightarrow> quic_frame_connection_close_process s skb type =
            Returns (Inr (length skb - (length p - unat phrase_len)),
                     s\<lparr>sk_err := - EPIPE, sk_state := QUIC_STATE_USER_CLOSED,
                       sk_state_changes := Suc (sk_state_changes s)\<rparr>))"
  by (rule connection_close_process_cases)

theorem connection_close_process_spec_witness:
  "quic_frame_connection_close_process sock0 [10, 3, 2, 65, 66] QUIC_FRAME_CONNECTION_CLOSE
     = Returns (Inl EINVAL, sock0)
   \<and> quic_frame_connection_close_process sock0 [10, 3, 2, 65, 0] QUIC_FRAME_CONNECTION_CLOSE
     = Returns (Inr 5, sock0\<lparr>sk_err := - EPIPE, sk_state := QUIC_STATE_USER_CLOSED,
                            sk_state_changes := Suc (sk_state_changes sock0)\<rparr>)"
  using connection_close_process_spec [of "[10, 3, 2, 65, 66]" 10 "[3, 2, 65, 66]"
      QUIC_FRAME_CONNECTION_CLOSE 3 "[2, 65, 66]" 2 "[65, 66]" sock0]
    connection_close_process_spec [of "[10, 3, 2, 65, 0]" 10 "[3, 2, 65, 0]"
      QUIC_FRAME_CONNECTION_CLOSE 3 "[2, 65, 0]" 2 "[65, 0]" sock0]
  by (simp add: get_var_byte)

section \<open>ACK\<close>

lemma add_checks_simps:
  "add_checks s [] = s"
  "quic_outq_retransmit_check s a b c d = add_checks s [(a, b, c, d)]"
  "add_checks (add_checks s xs) ys = add_checks s (xs @ ys)"
  by (simp_all add: add_checks_def quic_outq_retransmit_check_def)

lemma ack_process_ranges_pairs:
  "ack_pairs p n = Some (prs, p')
   \<Longrightarrow> ack_process_ranges s p smallest n = (Some p', add_checks s (ack_calls smallest prs))"
proof (induction n arbitrary: s p smallest prs)
  case 0
  then show ?case by (simp add: add_checks_simps)
next
  case (Suc n)
  from Suc.prems obtain gap p1 range' p2 rest where
    g: "quic_get_var p = Some (gap, p1)" "quic_get_var p1 = Some (range', p2)"
    and r: "ack_pairs p2 n = Some (rest, p')" and prs: "prs = (gap, range') # rest"
    by (auto split: option.splits)
  from Suc.IH [OF r] g prs show ?case
    by (simp add: Let_def add_checks_simps)
qed

text \<open>
  C3. Once largest, delay and count have been read, the decoder returns \<open>-EINVAL\<close> when
  count exceeds 16. Otherwise, with the first range and the count further (gap, range) pairs
  in the payload, it calls \<open>quic_outq_retransmit_check (largest, largest - first_range,
  largest, delay)\<close> and then, pair by pair in order, the calls the spec describes
  (\<open>ack_calls\<close>), for both ACK types. A frame of type 0x02 is consumed up to the end of
  the last pair; one of type 0x03 up to the end of its three ECN counts, and it is refused,
  the calls made, when they are missing. In particular, when the packet-number map holds
  packet 7 only and the delay comes out as 0 (the shift by the exponent being defined, that
  is the exponent below 64), the encoded frame is 02 07 00 00 00, and decoding its payload
  makes the one call (7, 7, 7, 0).
\<close>

theorem ack_process_spec:
  "(quic_get_var skb = Some (largest, p1) \<and> quic_get_var p1 = Some (delay, p2)
    \<and> quic_get_var p2 = Some (count, p3)
    \<longrightarrow>
    (count > 16 \<longrightarrow> quic_frame_ack_process s skb type = Returns (Inl EINVAL, s))
    \<and> (count \<le> 16 \<and> quic_get_var p3 = Some (first_range, p4)
        \<and> ack_pairs p4 (unat count) = Some (prs, p5)
       \<longrightarrow> quic_frame_ack_process s skb type =
             Returns
               (if type = QUIC_FRAME_ACK_ECN
                then (case ecn_counts p5 of
                        None \<Rightarrow> Inl EINVAL
                      | Some p8 \<Rightarrow> Inr (length skb - length p8))
                else Inr (length skb - length p5),
                add_checks s
                  ((largest, largest - first_range, largest, delay)
                   # ack_calls (largest - first_range) prs))))
   \<and> (max_pn_seen (pnmap e) = 7 \<and> min_pn_seen (pnmap e) = 7 \<and> pn_gabs (pnmap e) = []
       \<and> ack_delay_exponent (outq e) < 64
       \<and> (ucast (jiffies_usecs e - max_pn_ts (pnmap e)) :: u64)
            div 2 ^ ack_delay_exponent (outq e) = 0
       \<and> alloc e = (True, e1)
      \<longrightarrow> quic_frame_create e QUIC_FRAME_ACK d =
            Returns (Some ((new_skb [0x02, 0x07, 0x00, 0x00, 0x00])
                             \<lparr>cb_frame_type := QUIC_FRAME_ACK\<rparr>), e1))
   \<and> quic_frame_ack_process r [0x07, 0x00, 0x00, 0x00] QUIC_FRAME_ACK
       = Returns (Inr 4, add_checks r [(7, 7, 7, 0)])"
  apply (intro conjI impI)
  subgoal by (simp add: quic_frame_ack_process_def)
  subgoal by (clarsimp simp add: quic_frame_ack_process_def Let_def ack_process_ranges_pairs
        add_checks_simps not_less [symmetric] ecn_counts_def split: option.splits)
  subgoal by (clarsimp simp add: create_defs quic_frame_ack_create_def Let_def skb_filled_def
        put_var_small)
  subgoal by (simp add: quic_frame_ack_process_def get_var_byte Let_def add_checks_simps)
  done

theorem ack_process_spec_witness:
  "quic_frame_ack_process sock0 [0x07, 0x00, 0x11, 0x00] QUIC_FRAME_ACK
     = Returns (Inl EINVAL, sock0)
   \<and> quic_frame_ack_process sock0 [0x14, 0x03, 0x01, 0x02, 0x00, 0x05] QUIC_FRAME_ACK
     = Returns (Inr 6, add_checks sock0 [(20, 18, 20, 3), (16, 11, 0, 0)])
   \<and> quic_frame_ack_process sock0 [0x14, 0x03, 0x01, 0x02, 0x00, 0x05, 0x01, 0x02, 0x03]
         QUIC_FRAME_ACK_ECN
     = Returns (Inr 9, add_checks sock0 [(20, 18, 20, 3), (16, 11, 0, 0)])
   \<and> quic_frame_ack_process sock0 [0x14, 0x03, 0x01, 0x02, 0x00, 0x05, 0x01] QUIC_FRAME_ACK_ECN
     = Returns (Inl EINVAL, add_checks sock0 [(20, 18, 20, 3), (16, 11, 0, 0)])
   \<and> quic_frame_create sock0 QUIC_FRAME_ACK D_none
     = Returns (Some ((new_skb [0x02, 0x07, 0x00, 0x00, 0x00])
                       \<lparr>cb_frame_type := QUIC_FRAME_ACK\<rparr>), sock0)
   \<and> quic_frame_ack_process sock0 [0x07, 0x00, 0x00, 0x00] QUIC_FRAME_ACK
       = Returns (Inr 4, add_checks sock0 [(7, 7, 7, 0)])"
  using ack_process_spec [of "[0x07, 0x00, 0x11, 0x00]" 7 "[0x00, 0x11, 0x00]" 0 "[0x11, 0x00]"
      17 "[0x00]" sock0 QUIC_FRAME_ACK 0 "[]" "[]" "[]" sock0 sock0 D_none sock0]
    ack_process_spec [of "[0x14, 0x03, 0x01, 0x02, 0x00, 0x05]" 20 "[0x03, 0x01, 0x02, 0x00, 0x05]"
      3 "[0x01, 0x02, 0x00, 0x05]" 1 "[0x02, 0x00, 0x05]" sock0 QUIC_FRAME_ACK 2 "[0x00, 0x05]"
      "[(0, 5)]" "[]" sock0 sock0 D_none sock0]
    ack_process_spec [of "[0x14, 0x03, 0x01, 0x02, 0x00, 0x05, 0x01, 0x02, 0x03]" 20
      "[0x03, 0x01, 0x02, 0x00, 0x05, 0x01, 0x02, 0x03]" 3
      "[0x01, 0x02, 0x00, 0x05, 0x01, 0x02, 0x03]" 1 "[0x02, 0x00, 0x05, 0x01, 0x02, 0x03]"
      sock0 QUIC_FRAME_ACK_ECN 2 "[0x00, 0x05, 0x01, 0x02, 0x03]" "[(0, 5)]" "[0x01, 0x02, 0x03]"
      sock0 sock0 D_none sock0]
    ack_process_spec [of "[0x14, 0x03, 0x01, 0x02, 0x00, 0x05, 0x01]" 20
      "[0x03, 0x01, 0x02, 0x00, 0x05, 0x01]" 3 "[0x01, 0x02, 0x00, 0x05, 0x01]" 1
      "[0x02, 0x00, 0x05, 0x01]" sock0 QUIC_FRAME_ACK_ECN 2 "[0x00, 0x05, 0x01]" "[(0, 5)]"
      "[0x01]" sock0 sock0 D_none sock0]
  by (simp add: get_var_byte get_var_nil alloc_def sock0_def ecn_counts_def)

section \<open>Reads past the end of the payload\<close>

text \<open>
  C2. The payload 06 00 00 is a CRYPTO frame with offset 0 and length 0 and nothing after
  it. \<open>quic_frame_crypto_process\<close> reads both integers, finds \<open>length > len\<close> false
  (0 > 0) and then evaluates \<open>*p != 4\<close> with \<open>p\<close> at index 3 of a 3-byte payload: a
  read at \<open>len (B)\<close>, whatever the classifiers and the socket.
\<close>

theorem crypto_process_reads_past_end:
  "quic_frame_process cls s [QUIC_FRAME_CRYPTO, 0x00, 0x00] pki = Undefined"
  by (simp add: quic_frame_process_def frame_loop.simps [of _ _ "[QUIC_FRAME_CRYPTO, 0x00, 0x00]"]
      deref_def skb_pull_def frame_process_op_def quic_frame_crypto_process_def get_var_byte)

section \<open>NEW_CONNECTION_ID on the send side\<close>

text \<open>
  C4. On the example socket, whose random generator delivers 0, 1, 2, ... and whose
  unwritten stack memory holds 0xAA: the encoder takes sequence number 1 (the last number
  of the source set plus one), asks the generator for 16 bytes only, writes them as the
  connection id, appends \<open>{1, cid}\<close> to the source set, and fills the 16 bytes of the
  stateless-reset token from the stack memory it never wrote.
\<close>

theorem new_connection_id_create_token_unwritten:
  "quic_frame_create sock0 QUIC_FRAME_NEW_CONNECTION_ID (D_u64 0) =
     Returns
       (Some ((new_skb ([0x18, 0x01, 0x00, 0x10]
                 @ [0, 1, 2, 3, 4, 5, 6, 7, 8, 9, 10, 11, 12, 13, 14, 15]
                 @ [0xAA, 0xAA, 0xAA, 0xAA, 0xAA, 0xAA, 0xAA, 0xAA,
                    0xAA, 0xAA, 0xAA, 0xAA, 0xAA, 0xAA, 0xAA, 0xAA]))
              \<lparr>cb_frame_type := QUIC_FRAME_NEW_CONNECTION_ID\<rparr>),
        sock0\<lparr>rng_pos := 16,
              source := cid_append (source sock0) 1
                          [0, 1, 2, 3, 4, 5, 6, 7, 8, 9, 10, 11, 12, 13, 14, 15]\<rparr>)"
  by (simp add: create_defs quic_frame_new_connection_id_create_def Let_def get_random_bytes_def
      quic_connection_id_last_number_def quic_connection_id_append_def alloc_def scratch_def
      put_var_small sock0_def cid_append_def upt_rec)

section \<open>STREAM on the send side\<close>

lemma frame_create_op_stream:
  "QUIC_FRAME_STREAM \<le> t \<Longrightarrow> t \<le> 0x0F \<Longrightarrow> frame_create_op t = quic_frame_stream_create"
  by (auto simp add: frame_create_op_def word_le_nat_alt)

lemma or_le_15:
  assumes "(a :: u8) \<le> 15" and "b \<le> 15"
  shows "a OR b < 64"
proof -
  from assms have "a < 2 ^ 4" "b < 2 ^ 4"
    by (simp_all add: word_less_nat_alt word_le_nat_alt)
  then have a: "take_bit 4 a = a" and b: "take_bit 4 b = b"
    by (simp_all add: take_bit_eq_mask less_mask_eq)
  have "take_bit 4 a OR take_bit 4 b = (take_bit 4 a OR take_bit 4 b) AND mask 4"
    by (rule bit_eqI) (auto simp add: bit_simps)
  then have e: "a OR b = (a OR b) AND mask 4"
    by (simp only: a b)
  have "(a OR b) AND mask 4 < 2 ^ 4"
    by (rule and_mask_less_size) (simp add: word_size)
  then have "a OR b < 2 ^ 4"
    by (simp only: e [symmetric])
  then show ?thesis
    by (simp add: word_less_nat_alt)
qed

lemma stream_type_byte:
  assumes "(t :: u8) \<le> 15" and "c \<le> 15"
  shows "quic_put_var (ucast (t OR c)) = [t OR c]"
proof -
  have "t OR c < 64" using assms by (rule or_le_15)
  then have "(ucast (t OR c) :: u64) < 64"
    by (simp add: word_less_nat_alt ucast_u8_u64)
  then show ?thesis
    by (simp add: put_var_small ucast_u8_u64)
qed

lemma stream_bits:
  "((t :: u8) OR 2) \<noteq> 0" "(t OR 2 OR 1) \<noteq> 0" "(t OR 4 OR 2) \<noteq> 0" "(t OR 4 OR 2 OR 1) \<noteq> 0"
  "(t OR 2) AND 4 = t AND 4" "(t OR 2 OR 1) AND 4 = t AND 4"
  "(t OR 4 OR 2) AND 4 = 4" "(t OR 4 OR 2 OR 1) AND 4 = 4"
  "t OR 2 = t OR 2 OR 0" "t OR 2 OR 1 = t OR 3" "t OR 4 OR 2 = t OR 6" "t OR 4 OR 2 OR 1 = t OR 7"
  by (simp_all add: or_eq_0_iff bit.conj_disj_distrib2 or.assoc)

lemma stream_create_unfold:
  fixes s :: sock and info :: quic_msginfo and st :: quic_stream and type :: u8
  assumes st: "strm (streams s) (mi_stream info) = Some st"
  defines "off \<equiv> send_offset st \<noteq> 0"
  defines "hlen \<equiv> (1 + of_nat (quic_var_len (mi_stream info)) :: u32)
                  + (if off then of_nat (quic_var_len (send_offset st)) else 0)
                  + of_nat (quic_var_len (ucast (packet_max_payload s)))"
  defines "fits \<equiv> (of_nat (length (mi_msg info)) :: u32) \<le> packet_max_payload s - hlen"
  defines "ty \<equiv> type OR (if off then 4 else 0) OR 2 OR (if fits \<and> mi_flag_fin info then 1 else 0)"
  defines "msg_len \<equiv> (if fits then of_nat (length (mi_msg info)) else packet_max_payload s - hlen)"
  defines "hdr \<equiv> quic_put_var (ucast ty) @ quic_put_var (mi_stream info)
                  @ (if ty AND 4 \<noteq> 0 then quic_put_var (send_offset st) else [])
                  @ quic_put_var (ucast msg_len)"
  shows "quic_frame_stream_create s (D_msginfo info) type =
     (case alloc s of
        (False, s1) \<Rightarrow> Returns (None, s1)
      | (True, s1) \<Rightarrow>
          if \<not> mi_copy_ok info then
            (if length hdr \<le> unat (msg_len + hlen) then Returns (None, s1) else Undefined)
          else if unat msg_len \<le> length (mi_msg info)
                  \<and> length (hdr @ take (unat msg_len) (mi_msg info)) \<le> unat (msg_len + hlen)
          then Returns
                 (Some ((new_skb (hdr @ take (unat msg_len) (mi_msg info)))
                    \<lparr>cb_frame_type := ty, cb_stream := Some (mi_stream info),
                     cb_stream_offset := (if ty AND 4 \<noteq> 0 then send_offset st else 0),
                     cb_data_bytes := msg_len\<rparr>),
                  stream_put s1 (mi_stream info)
                    (st\<lparr>send_offset := send_offset st + ucast msg_len\<rparr>))
          else Undefined)"
proof (cases "alloc s")
  case (Pair b s1)
  show ?thesis
  proof (cases b)
    case False
    with Pair st show ?thesis
      by (simp add: quic_frame_stream_create_def)
  next
    case True
    with Pair st show ?thesis
      unfolding quic_frame_stream_create_def off_def hlen_def fits_def ty_def msg_len_def hdr_def
      by (simp add: Let_def mem_read_def or.assoc)
  qed
qed


text \<open>
  C7, as the claim states it, fails on the OFF bit: the encoder only ever sets bits of the
  type it is given, and \<open>quic_frame_ops\<close> sends all of 0x08..0x0F to it. Asked for type
  0x0C on stream 4 of the example socket, whose send offset is 0, it emits the type byte 0x0F,
  with OFF set, and an explicit offset of 0.
\<close>

theorem stream_create_off_preset:
  "quic_frame_create sock0 0x0C
     (D_msginfo \<lparr>mi_stream = 4, mi_msg = [104, 105], mi_copy_ok = True, mi_flag_fin = True\<rparr>)
   = Returns
       (Some \<lparr>skb_data = [0x0F, 0x04, 0x00, 0x02, 104, 105], cb_frame_type = 0x0F,
              cb_stream = Some 4, cb_stream_offset = 0, cb_data_bytes = 2, cb_err_code = 0\<rparr>,
        stream_put sock0 4 (stream0\<lparr>send_offset := 2\<rparr>))
   \<and> (0x0F :: u8) AND QUIC_STREAM_BIT_OFF \<noteq> 0
   \<and> strm (streams sock0) 4 = Some stream0 \<and> send_offset stream0 = 0"
  by (simp add: create_defs quic_frame_stream_create_def Let_def alloc_def mem_read_def
      put_var_small quic_var_len_def sock0_def stream0_def stream_put_def)

text \<open>
  C7, amended. For a STREAM type 0x08..0x0F and a stream with send offset \<open>o\<close>: when
  \<open>quic_frame_create\<close> returns a buffer, its first byte is the refined frame type, whose
  OFF bit is set if and only if \<open>o > 0\<close> or the requested type had the bit already; the
  buffer ends with the first \<open>n\<close> bytes of the message, \<open>n\<close> being the
  \<open>data_bytes\<close> of its control block; and the stream's send offset is \<open>o + n\<close>. When
  it returns NULL (allocation or copy failure) the stream table is as before.
\<close>

theorem stream_create_spec:
  "strm (streams s) (mi_stream info) = Some st \<and> QUIC_FRAME_STREAM \<le> type \<and> type \<le> 0x0F
   \<longrightarrow>
   (quic_frame_create s type (D_msginfo info) = Returns (Some skb, s')
      \<longrightarrow> take 1 (skb_data skb) = [cb_frame_type skb]
        \<and> (cb_frame_type skb AND QUIC_STREAM_BIT_OFF \<noteq> 0
             \<longleftrightarrow> send_offset st \<noteq> 0 \<or> type AND QUIC_STREAM_BIT_OFF \<noteq> 0)
        \<and> drop (length (skb_data skb) - unat (cb_data_bytes skb)) (skb_data skb)
             = take (unat (cb_data_bytes skb)) (mi_msg info)
        \<and> unat (cb_data_bytes skb) \<le> length (mi_msg info)
        \<and> strm (streams s') (mi_stream info)
             = Some (st\<lparr>send_offset := send_offset st + ucast (cb_data_bytes skb)\<rparr>))
   \<and> (quic_frame_create s type (D_msginfo info) = Returns (None, s')
      \<longrightarrow> streams s' = streams s)"
proof (intro impI, elim conjE)
  assume st: "strm (streams s) (mi_stream info) = Some st"
    and lo: "QUIC_FRAME_STREAM \<le> type" and hi: "type \<le> 0x0F"
  define off where "off \<equiv> send_offset st \<noteq> 0"
  define hlen where "hlen \<equiv> (1 + of_nat (quic_var_len (mi_stream info)) :: u32)
                  + (if off then of_nat (quic_var_len (send_offset st)) else 0)
                  + of_nat (quic_var_len (ucast (packet_max_payload s)))"
  define fits where "fits \<equiv> (of_nat (length (mi_msg info)) :: u32) \<le> packet_max_payload s - hlen"
  define c where "c \<equiv> (if off then 4 else 0) OR 2 OR (if fits \<and> mi_flag_fin info then 1 else (0 :: u8))"
  define ty where "ty \<equiv> type OR c"
  define msg_len where "msg_len \<equiv> (if fits then of_nat (length (mi_msg info)) else packet_max_payload s - hlen)"
  define hdr where "hdr \<equiv> quic_put_var (ucast ty) @ quic_put_var (mi_stream info)
                  @ (if ty AND 4 \<noteq> 0 then quic_put_var (send_offset st) else [])
                  @ quic_put_var (ucast msg_len)"
  have ty': "ty = type OR (if off then 4 else 0) OR 2 OR (if fits \<and> mi_flag_fin info then 1 else 0)"
    by (simp add: ty_def c_def or.assoc)
  note u = stream_create_unfold [OF st, of type, folded off_def, folded hlen_def,
      folded fits_def, folded ty', folded msg_len_def, folded hdr_def]
  have c15: "c \<le> 15"
    by (simp add: c_def)
  have tb: "quic_put_var (ucast ty) = [ty]"
    unfolding ty_def using hi c15 by (rule stream_type_byte)
  have nz: "ty \<noteq> 0"
    by (simp add: ty' or_eq_0_iff)
  have offbit: "ty AND 4 \<noteq> 0 \<longleftrightarrow> off \<or> type AND 4 \<noteq> 0"
    by (simp add: ty' bit.conj_disj_distrib2 or_eq_0_iff)
  have op: "frame_create_op type = quic_frame_stream_create"
    using lo hi by (rule frame_create_op_stream)
  have gt: "\<not> type > QUIC_FRAME_BASE_MAX"
    using hi by (simp add: word_le_nat_alt word_less_nat_alt)
  show "(quic_frame_create s type (D_msginfo info) = Returns (Some skb, s')
      \<longrightarrow> take 1 (skb_data skb) = [cb_frame_type skb]
        \<and> (cb_frame_type skb AND QUIC_STREAM_BIT_OFF \<noteq> 0
             \<longleftrightarrow> send_offset st \<noteq> 0 \<or> type AND QUIC_STREAM_BIT_OFF \<noteq> 0)
        \<and> drop (length (skb_data skb) - unat (cb_data_bytes skb)) (skb_data skb)
             = take (unat (cb_data_bytes skb)) (mi_msg info)
        \<and> unat (cb_data_bytes skb) \<le> length (mi_msg info)
        \<and> strm (streams s') (mi_stream info)
             = Some (st\<lparr>send_offset := send_offset st + ucast (cb_data_bytes skb)\<rparr>))
   \<and> (quic_frame_create s type (D_msginfo info) = Returns (None, s')
      \<longrightarrow> streams s' = streams s)"
  proof (cases "alloc s")
    case (Pair b s1)
    then have k: "streams s1 = streams s" by (simp add: alloc_keeps)
    show ?thesis
    proof (cases b)
      case False
      with Pair gt op u k show ?thesis
        by (auto simp add: quic_frame_create_def)
    next
      case True
      with Pair gt op u k nz tb offbit show ?thesis
        by (auto simp add: quic_frame_create_def new_skb_def hdr_def stream_put_def off_def
            min_def split: if_splits)
    qed
  qed
qed

theorem stream_create_spec_witness:
  "quic_frame_create sock0 QUIC_FRAME_STREAM
     (D_msginfo \<lparr>mi_stream = 4, mi_msg = [104, 105], mi_copy_ok = True, mi_flag_fin = True\<rparr>)
   = Returns
       (Some \<lparr>skb_data = [0x0B, 0x04, 0x02, 104, 105], cb_frame_type = 0x0B,
              cb_stream = Some 4, cb_stream_offset = 0, cb_data_bytes = 2, cb_err_code = 0\<rparr>,
        stream_put sock0 4 (stream0\<lparr>send_offset := 2\<rparr>))
   \<and> \<not> (0x0B :: u8) AND QUIC_STREAM_BIT_OFF \<noteq> 0
   \<and> strm (streams (stream_put sock0 4 (stream0\<lparr>send_offset := 2\<rparr>))) 4
       = Some (stream0\<lparr>send_offset := send_offset stream0 + 2\<rparr>)
   \<and> quic_frame_create (sock0\<lparr>allocs := [False]\<rparr>) QUIC_FRAME_STREAM
     (D_msginfo \<lparr>mi_stream = 4, mi_msg = [104, 105], mi_copy_ok = True, mi_flag_fin = True\<rparr>)
   = Returns (None, sock0\<lparr>allocs := []\<rparr>)
   \<and> streams (sock0\<lparr>allocs := []\<rparr>) = streams (sock0\<lparr>allocs := [False]\<rparr>)"
  using stream_create_spec [of sock0
      "\<lparr>mi_stream = 4, mi_msg = [104, 105], mi_copy_ok = True, mi_flag_fin = True\<rparr>"
      stream0 QUIC_FRAME_STREAM
      "\<lparr>skb_data = [0x0B, 0x04, 0x02, 104, 105], cb_frame_type = 0x0B,
         cb_stream = Some 4, cb_stream_offset = 0, cb_data_bytes = 2, cb_err_code = 0\<rparr>"
      "stream_put sock0 4 (stream0\<lparr>send_offset := 2\<rparr>)"]
    stream_create_spec [of "sock0\<lparr>allocs := [False]\<rparr>"
      "\<lparr>mi_stream = 4, mi_msg = [104, 105], mi_copy_ok = True, mi_flag_fin = True\<rparr>"
      stream0 QUIC_FRAME_STREAM
      "\<lparr>skb_data = [0x0B, 0x04, 0x02, 104, 105], cb_frame_type = 0x0B,
         cb_stream = Some 4, cb_stream_offset = 0, cb_data_bytes = 2, cb_err_code = 0\<rparr>"
      "sock0\<lparr>allocs := []\<rparr>"]
  by (simp add: create_defs quic_frame_stream_create_def Let_def alloc_def mem_read_def
      put_var_small quic_var_len_def sock0_def stream0_def stream_put_def)

section \<open>NEW_CONNECTION_ID on the receive side\<close>

lemma retire_create:
  "allocs s = [] \<Longrightarrow> quic_frame_create s QUIC_FRAME_RETIRE_CONNECTION_ID (D_u64 n)
     = Returns (Some (retire_frame n), s\<lparr>dest := quic_connection_id_remove (dest s) n\<rparr>)"
  by (simp add: create_defs quic_frame_retire_connection_id_create_def put_var_small
      scratch_one_var alloc_def retire_frame_def)

lemma retire_prior_all:
  "allocs s = [] \<Longrightarrow> unat prior - unat first = k
   \<Longrightarrow> retire_prior s first prior = Returns (True, retire_list s (seq_from first k))"
proof (induction k arbitrary: s first)
  case 0
  then have "\<not> first < prior"
    by (simp add: word_less_nat_alt)
  then show ?case
    by (subst retire_prior.simps) simp
next
  case (Suc k)
  then have lt: "first < prior"
    by (simp add: word_less_nat_alt)
  then have a: "unat first < unat prior"
    by (simp add: word_less_nat_alt)
  have "unat prior < 2 ^ 64"
    using unsigned_less [of prior] by simp
  with a have "unat first + unat (1 :: u64) < 2 ^ LENGTH(64)"
    by simp
  then have "unat (first + 1) = unat first + unat (1 :: u64)"
    by (simp only: unat_add_lem)
  with Suc.prems have k: "unat prior - unat (first + 1) = k"
    by simp
  let ?s = "quic_outq_ctrl_tail (s\<lparr>dest := quic_connection_id_remove (dest s) first\<rparr>)
              (retire_frame first) True"
  from Suc.prems have "allocs ?s = []"
    by (simp add: quic_outq_ctrl_tail_def)
  from Suc.IH [OF this k] lt Suc.prems(1) show ?case
    by (subst retire_prior.simps) (simp add: retire_create)
qed

lemma foldl_be_take_bit:
  "take_bit n a = a
   \<Longrightarrow> take_bit (n + 8 * length xs) (foldl (\<lambda>a b. push_bit 8 a OR ucast b) (a :: u64) (xs :: bytes))
       = foldl (\<lambda>a b. push_bit 8 a OR ucast b) a xs"
proof (induction xs arbitrary: a n)
  case Nil
  then show ?case by simp
next
  case (Cons x xs)
  have "take_bit (n + 8) (push_bit 8 (take_bit n a) OR ucast x)
        = push_bit 8 (take_bit n a) OR ucast x"
    by (rule bit_eqI) (auto simp add: bit_simps dest: bit_imp_le_length)
  with Cons.prems have "take_bit (n + 8) (push_bit 8 a OR ucast x) = push_bit 8 a OR ucast x"
    by simp
  from Cons.IH [OF this] show ?case
    by (simp add: ac_simps)
qed

lemma quic_get_var_bound:
  assumes "quic_get_var bs = Some (v, r)"
  shows "v < 2 ^ 62"
proof -
  from assms obtain b rest where bs: "bs = b # rest"
    by (cases bs) (simp_all add: quic_get_var_def)
  define k where "k = (2 :: nat) ^ unat (drop_bit 6 b)"
  have "unat b < 2 ^ 8"
    using unsigned_less [of b] by simp
  then have "unat b div 2 ^ 6 < 4"
    by simp
  then have "unat (drop_bit 6 b) < 4"
    by (simp add: drop_bit_eq_div unat_div)
  then have "unat (drop_bit 6 b) \<le> 3"
    by simp
  then have "(2 :: nat) ^ unat (drop_bit 6 b) \<le> 2 ^ 3"
    by (rule power_increasing) simp
  then have k8: "k \<le> 8"
    by (simp add: k_def)
  from assms bs have v: "v = be_val ((b AND 0x3F) # take (k - 1) rest)"
    by (simp add: quic_get_var_def Let_def k_def split: if_splits)
  have m: "(0x3F :: u8) = mask 6"
    by (simp add: mask_eq_exp_minus_1)
  have "take_bit 6 (ucast (b AND mask 6) :: u64) = ucast (b AND mask 6)"
    by (rule bit_eqI) (auto simp add: bit_simps)
  from foldl_be_take_bit [OF this, of "take (k - 1) rest"]
  have tb: "take_bit (6 + 8 * length (take (k - 1) rest)) v = v"
    by (simp add: v be_val_def m)
  define j where "j = 6 + 8 * length (take (k - 1) rest)"
  have j: "j \<le> 62"
    using k8 by (simp add: j_def)
  from tb have tj: "take_bit j v = v"
    by (simp only: j_def)
  from j have "take_bit 62 (take_bit j v) = take_bit j v"
    by (simp add: min_def)
  then have "take_bit 62 v = v"
    by (simp only: tj)
  then have "v AND mask 62 = v"
    by (simp add: take_bit_eq_mask)
  moreover have "v AND mask 62 < 2 ^ 62"
    by (rule and_mask_less_size) (simp add: word_size)
  ultimately show ?thesis
    by simp
qed

lemma get_var_plus_16:
  assumes "quic_get_var bs = Some (v, r)"
  shows "unat (v + 16) = unat v + 16"
proof -
  from assms have "v < 2 ^ 62" by (rule quic_get_var_bound)
  then have "unat v < 2 ^ 62" by (simp add: word_less_nat_alt)
  then have "unat v + unat (16 :: u64) < 2 ^ LENGTH(64)" by simp
  then have "unat (v + 16) = unat v + unat (16 :: u64)" by (simp only: unat_add_lem)
  then show ?thesis by simp
qed

text \<open>
  C6, as the claim states it, fails on the reset token: the decoder passes the connection id
  alone to \<open>quic_connection_id_append\<close> and never reads the 16 token bytes. Two frames
  that differ in the token only (B0..BF and C0..CF), received on the example socket whose
  destination set is {0}, leave the same socket: the set holds \<open>{1, cid}\<close>, and
  RETIRE_CONNECTION_ID (0) is queued.
\<close>

theorem new_connection_id_token_dropped:
  "quic_frame_new_connection_id_process sock0
     ([0x01, 0x01, 0x08] @ [71, 72, 73, 74, 75, 76, 77, 78]
      @ [0xB0, 0xB1, 0xB2, 0xB3, 0xB4, 0xB5, 0xB6, 0xB7, 0xB8, 0xB9, 0xBA, 0xBB, 0xBC, 0xBD,
         0xBE, 0xBF]) QUIC_FRAME_NEW_CONNECTION_ID
   = Returns (Inr 27,
       quic_outq_ctrl_tail
         (sock0\<lparr>dest := \<lparr>cid_entries = [\<lparr>cid_number = 1, cid_bytes = [71, 72, 73, 74, 75, 76, 77, 78]\<rparr>],
                         max_count = 8\<rparr>\<rparr>)
         (retire_frame 0) True)
   \<and> quic_frame_new_connection_id_process sock0
     ([0x01, 0x01, 0x08] @ [71, 72, 73, 74, 75, 76, 77, 78]
      @ [0xC0, 0xC1, 0xC2, 0xC3, 0xC4, 0xC5, 0xC6, 0xC7, 0xC8, 0xC9, 0xCA, 0xCB, 0xCC, 0xCD,
         0xCE, 0xCF]) QUIC_FRAME_NEW_CONNECTION_ID
   = Returns (Inr 27,
       quic_outq_ctrl_tail
         (sock0\<lparr>dest := \<lparr>cid_entries = [\<lparr>cid_number = 1, cid_bytes = [71, 72, 73, 74, 75, 76, 77, 78]\<rparr>],
                         max_count = 8\<rparr>\<rparr>)
         (retire_frame 0) True)"
  by (simp add: quic_frame_new_connection_id_process_def get_var_byte mem_read_def
      quic_connection_id_last_number_def quic_connection_id_first_number_def
      quic_connection_id_append_def cid_append_def alloc_def Let_def
      retire_prior.simps [of _ 0 1] retire_prior.simps [of _ 1 1] retire_create
      quic_connection_id_remove_def quic_outq_ctrl_tail_def sock0_def)

lemma new_connection_id_process_cases:
  "quic_get_var skb = Some (seqno, p1) \<and> quic_get_var p1 = Some (prior, p2)
   \<and> quic_get_var p2 = Some (length', p)
   \<longrightarrow>
   (\<not> (unat length' + 16 \<le> length p
        \<and> seqno = quic_connection_id_last_number (dest s) + 1 \<and> prior \<le> seqno)
      \<longrightarrow> quic_frame_new_connection_id_process s skb type = Returns (Inl EINVAL, s))
   \<and> (unat length' + 16 \<le> length p
        \<and> seqno = quic_connection_id_last_number (dest s) + 1 \<and> prior \<le> seqno
        \<and> allocs s = []
      \<longrightarrow> quic_frame_new_connection_id_process s skb type =
            Returns (Inr (length skb - (length p - (unat length' + 16))),
              retire_list (s\<lparr>dest := cid_append (dest s) seqno (take (unat length') p)\<rparr>)
                (seq_from
                   (quic_connection_id_first_number
                      (cid_append (dest s) seqno (take (unat length') p)))
                   (unat prior
                    - unat (quic_connection_id_first_number
                              (cid_append (dest s) seqno (take (unat length') p)))))))"
proof (intro impI, elim conjE)
  assume g: "quic_get_var skb = Some (seqno, p1)" "quic_get_var p1 = Some (prior, p2)"
    "quic_get_var p2 = Some (length', p)"
  from g(3) have l16: "unat (length' + 16) = unat length' + 16"
    by (rule get_var_plus_16)
  let ?cs = "cid_append (dest s) seqno (take (unat length') p)"
  let ?first = "quic_connection_id_first_number ?cs"
  show "(\<not> (unat length' + 16 \<le> length p
        \<and> seqno = quic_connection_id_last_number (dest s) + 1 \<and> prior \<le> seqno)
      \<longrightarrow> quic_frame_new_connection_id_process s skb type = Returns (Inl EINVAL, s))
   \<and> (unat length' + 16 \<le> length p
        \<and> seqno = quic_connection_id_last_number (dest s) + 1 \<and> prior \<le> seqno
        \<and> allocs s = []
      \<longrightarrow> quic_frame_new_connection_id_process s skb type =
            Returns (Inr (length skb - (length p - (unat length' + 16))),
              retire_list (s\<lparr>dest := ?cs\<rparr>) (seq_from ?first (unat prior - unat ?first))))"
  proof (intro conjI impI; (elim conjE)?)
    assume "\<not> (unat length' + 16 \<le> length p
        \<and> seqno = quic_connection_id_last_number (dest s) + 1 \<and> prior \<le> seqno)"
    with g l16 show "quic_frame_new_connection_id_process s skb type = Returns (Inl EINVAL, s)"
      by (auto simp add: quic_frame_new_connection_id_process_def not_le)
  next
    assume v: "unat length' + 16 \<le> length p"
      "seqno = quic_connection_id_last_number (dest s) + 1" "prior \<le> seqno"
      and al: "allocs s = []"
    let ?s2 = "s\<lparr>dest := ?cs\<rparr>"
    from al have al2: "allocs ?s2 = []" by simp
    have loop: "retire_prior ?s2 ?first prior
                = Returns (True, retire_list ?s2 (seq_from ?first (unat prior - unat ?first)))"
      using al2 by (rule retire_prior_all) simp
    have none: "prior \<le> ?first \<Longrightarrow> seq_from ?first (unat prior - unat ?first) = []"
      by (simp add: word_le_nat_alt)
    from g l16 v al loop none
    show "quic_frame_new_connection_id_process s skb type =
            Returns (Inr (length skb - (length p - (unat length' + 16))),
              retire_list ?s2 (seq_from ?first (unat prior - unat ?first)))"
      by (simp add: quic_frame_new_connection_id_process_def mem_read_def
          quic_connection_id_append_def alloc_def Let_def not_less [symmetric])
  qed
qed

text \<open>
  C6, amended. Once seqno, prior and length have been read, the decoder returns
  \<open>-EINVAL\<close>, the socket untouched, unless \<open>length + 16\<close> bytes remain, seqno is the
  destination set's last number plus one, and \<open>prior \<le> seqno\<close>. Otherwise, when no
  allocation fails, it appends \<open>{seqno, cid}\<close> (the connection id without the token) to
  the destination set, and for each number from the set's first number (read after the
  append) up to \<open>prior\<close>, exclusive, it creates one RETIRE_CONNECTION_ID frame, which
  removes that number from the destination set, and puts it at the tail of the control
  queue; it consumes the three integers, the connection id and the 16 token bytes.
\<close>

theorem new_connection_id_process_spec:
  "quic_get_var skb = Some (seqno, p1) \<and> quic_get_var p1 = Some (prior, p2)
   \<and> quic_get_var p2 = Some (length', p)
   \<longrightarrow>
   (\<not> (unat length' + 16 \<le> length p
        \<and> seqno = quic_connection_id_last_number (dest s) + 1 \<and> prior \<le> seqno)
      \<longrightarrow> quic_frame_new_connection_id_process s skb type = Returns (Inl EINVAL, s))
   \<and> (unat length' + 16 \<le> length p
        \<and> seqno = quic_connection_id_last_number (dest s) + 1 \<and> prior \<le> seqno
        \<and> allocs s = []
      \<longrightarrow> quic_frame_new_connection_id_process s skb type =
            Returns (Inr (length skb - (length p - (unat length' + 16))),
              retire_list (s\<lparr>dest := cid_append (dest s) seqno (take (unat length') p)\<rparr>)
                (seq_from
                   (quic_connection_id_first_number
                      (cid_append (dest s) seqno (take (unat length') p)))
                   (unat prior
                    - unat (quic_connection_id_first_number
                              (cid_append (dest s) seqno (take (unat length') p)))))))"
  by (rule new_connection_id_process_cases)

theorem new_connection_id_process_spec_witness:
  "quic_frame_new_connection_id_process sock0
     [0x01, 0x02, 0x00, 31, 32, 33, 34, 35, 36, 37, 38, 39, 40, 41, 42, 43, 44, 45, 46]
     QUIC_FRAME_NEW_CONNECTION_ID
   = Returns (Inl EINVAL, sock0)
   \<and> quic_frame_new_connection_id_process sock0
     [0x01, 0x01, 0x08, 71, 72, 73, 74, 75, 76, 77, 78, 31, 32, 33, 34, 35, 36, 37, 38, 39, 40, 41, 42, 43, 44, 45, 46]
     QUIC_FRAME_NEW_CONNECTION_ID
   = Returns (Inr 27,
       retire_list (sock0\<lparr>dest := cid_append (dest sock0) 1 [71, 72, 73, 74, 75, 76, 77, 78]\<rparr>) [0])"
  using new_connection_id_process_spec [of
      "[0x01, 0x02, 0x00, 31, 32, 33, 34, 35, 36, 37, 38, 39, 40, 41, 42, 43, 44, 45, 46]" 1
      "[0x02, 0x00, 31, 32, 33, 34, 35, 36, 37, 38, 39, 40, 41, 42, 43, 44, 45, 46]" 2
      "[0x00, 31, 32, 33, 34, 35, 36, 37, 38, 39, 40, 41, 42, 43, 44, 45, 46]" 0
      "[31, 32, 33, 34, 35, 36, 37, 38, 39, 40, 41, 42, 43, 44, 45, 46]" sock0 QUIC_FRAME_NEW_CONNECTION_ID]
    new_connection_id_process_spec [of
      "[0x01, 0x01, 0x08, 71, 72, 73, 74, 75, 76, 77, 78, 31, 32, 33, 34, 35, 36, 37, 38, 39, 40, 41, 42, 43, 44, 45, 46]" 1
      "[0x01, 0x08, 71, 72, 73, 74, 75, 76, 77, 78, 31, 32, 33, 34, 35, 36, 37, 38, 39, 40, 41, 42, 43, 44, 45, 46]" 1
      "[0x08, 71, 72, 73, 74, 75, 76, 77, 78, 31, 32, 33, 34, 35, 36, 37, 38, 39, 40, 41, 42, 43, 44, 45, 46]" 8
      "[71, 72, 73, 74, 75, 76, 77, 78, 31, 32, 33, 34, 35, 36, 37, 38, 39, 40, 41, 42, 43, 44, 45, 46]"
      sock0 QUIC_FRAME_NEW_CONNECTION_ID]
  by (simp add: get_var_byte sock0_def quic_connection_id_last_number_def
      quic_connection_id_first_number_def cid_append_def word_le_nat_alt)

section \<open>Encoding and then decoding\<close>











































end
